theory Spec2Isabelle
  imports Complex_Main
begin

section \<open>Go strings\<close>

text \<open>
  A Go \<open>string\<close> is a sequence of bytes; it is modelled as \<^typ>\<open>string\<close>, a list of
  8-bit characters.  The two functions below are \<open>strings.Index\<close> and
  \<open>strings.Replace(s, old, new, -1)\<close> of the Go standard library.
\<close>

fun strings_Index :: "string \<Rightarrow> string \<Rightarrow> int" where
  "strings_Index [] sub = (if sub = [] then 0 else - 1)"
| "strings_Index (c # s) sub =
     (if take (length sub) (c # s) = sub then 0
      else (let r = strings_Index s sub in if r < 0 then - 1 else r + 1))"

function strings_Replace :: "string \<Rightarrow> string \<Rightarrow> string \<Rightarrow> string" where
  "strings_Replace [] old new = (if old = [] then new else [])"
| "strings_Replace (c # s) old new =
     (if old = [] then new @ c # strings_Replace s old new
      else if take (length old) (c # s) = old
        then new @ strings_Replace (drop (length old) (c # s)) old new
      else c # strings_Replace s old new)"
  by pat_completeness auto
termination
  by (relation "measure (\<lambda>(s, old, new). length s)") auto


text \<open>\<open>fmt.Sprintf("%d", n)\<close>: the decimal digits of an integer.\<close>

function decimal :: "nat \<Rightarrow> string" where
  "decimal n =
     (if n < 10 then [char_of (48 + n)] else decimal (n div 10) @ [char_of (48 + n mod 10)])"
  by pat_completeness auto
termination
  by (relation "measure (\<lambda>n. n)") auto

declare decimal.simps [simp del]

definition Sprintf_d :: "int \<Rightarrow> string" where
  "Sprintf_d n = (if n < 0 then CHR 0x2D # decimal (nat (- n)) else decimal (nat n))"

section \<open>Errors and HTTP responses\<close>

text \<open>
  Go's \<open>error\<close> values.  The sentinel errors of package \<open>fs\<close> are constructors of
  their own; \<open>ApiError\<close> is pcloud's \<open>*api.Error\<close> with its numeric \<open>Result\<close>;
  \<open>Errorf\<close> stands for \<open>errors.New\<close>/\<open>errors.Errorf\<close>; \<open>Wrap\<close> for
  \<open>errors.Wrap\<close>; \<open>TransportError\<close> is any other error value, told apart by a tag.
  \<open>GoPanic\<close> is a run-time panic (a nil dereference, an index out of range), which the
  model hands up as the error result of the function it happens in.
  A nil error is \<open>None\<close> of \<^typ>\<open>'a option\<close>.
\<close>

datatype error =
    ErrorObjectNotFound
  | ErrorDirNotFound
  | ErrorIsFile
  | ErrorNotAFile
  | ErrorDirExists
  | ErrorCantDirMove
  | ApiError int string
  | Errorf string
  | TransportError nat
  | Wrap error string
  | GoPanic string

record Response =
  StatusCode :: int
  Header :: "string \<Rightarrow> string list"

text \<open>Go's integer division truncates towards zero.\<close>

definition go_quot :: "int \<Rightarrow> int \<Rightarrow> int" where
  "go_quot a b = sgn a * sgn b * (\<bar>a\<bar> div \<bar>b\<bar>)"

definition go_rem :: "int \<Rightarrow> int \<Rightarrow> int" where
  "go_rem a b = sgn a * (\<bar>a\<bar> mod \<bar>b\<bar>)"

section \<open>Retryability: \<open>shouldRetry\<close>\<close>

definition retryErrorCodes :: "int list" where
  "retryErrorCodes = [429, 500, 502, 503, 504, 509]"

text \<open>
  Modelled from the spec: \<open>fserrors.ShouldRetryHTTP\<close> (package \<open>fs/fserrors\<close> is not
  among the sources).  The spec lists the ``generic transient HTTP status classes'' that
  the caller supplies; a missing response has no status.
\<close>

definition ShouldRetryHTTP :: "Response option \<Rightarrow> int list \<Rightarrow> bool" where
  "ShouldRetryHTTP resp codes =
     (case resp of None \<Rightarrow> False | Some r \<Rightarrow> StatusCode r \<in> set codes)"

text \<open>
  The test both backends make on a 401: exactly one \<open>Www-Authenticate\<close> header, and
  \<open>expired_token\<close> occurs in it.
\<close>

definition expired_token_401 :: "Response option \<Rightarrow> bool" where
  "expired_token_401 resp =
     (case resp of
        None \<Rightarrow> False
      | Some r \<Rightarrow>
          (if StatusCode r = 401 then
             (if length (Header r ''Www-Authenticate'') = 1
              then strings_Index (Header r ''Www-Authenticate'' ! 0) ''expired_token'' \<ge> 0
              else False)
           else False))"

text \<open>
  \<open>fserrors.ShouldRetry\<close>, the generic test for a retryable network failure, is the
  parameter \<open>netRetry\<close>.
\<close>

definition onedrive_shouldRetry ::
  "(error option \<Rightarrow> bool) \<Rightarrow> Response option \<Rightarrow> error option \<Rightarrow> bool \<times> error option" where
  "onedrive_shouldRetry netRetry resp err =
     (let authRety = (if expired_token_401 resp then True else False)
      in (authRety \<or> netRetry err \<or> ShouldRetryHTTP resp retryErrorCodes, err))"

definition pcloud_shouldRetry ::
  "(error option \<Rightarrow> bool) \<Rightarrow> Response option \<Rightarrow> error option \<Rightarrow> bool \<times> error option" where
  "pcloud_shouldRetry netRetry resp err =
     (let doRetry =
            (case err of
               Some (ApiError result msg) \<Rightarrow>
                 (if go_quot result 1000 = 4 then True
                  else if go_quot result 1000 = 5 then True
                  else False)
             | _ \<Rightarrow> False);
          doRetry = (if expired_token_401 resp then True else doRetry)
      in (doRetry \<or> netRetry err \<or> ShouldRetryHTTP resp retryErrorCodes, err))"

section \<open>pcloud: reserved characters\<close>

text \<open>
  The literal that stands for the backslash is the one of the source file.
\<close>

definition replaceReservedChars :: "string \<Rightarrow> string" where
  "replaceReservedChars x = strings_Replace x [CHR 0x5C] ''???''"

definition restoreReservedChars :: "string \<Rightarrow> string" where
  "restoreReservedChars x = strings_Replace x ''???'' [CHR 0x5C]"

section \<open>The pacer\<close>

text \<open>
  Modelled from the spec: the pacer state and its backoff rule (package \<open>lib/pacer\<close> is
  not among the sources).  The spec's data model: ``current sleep interval (bounded
  [MinSleep, MaxSleep]), decay constant, retry budget''.  Durations are in seconds.
\<close>

record Pacer =
  sleep :: real
  MinSleep :: real
  MaxSleep :: real
  DecayConstant :: nat
  retryBudget :: nat

text \<open>
  Modelled from the spec: ``on failure, sleep = min(MaxSleep, sleep * 2); on success,
  sleep = max(MinSleep, sleep / 2^(1/DecayConstant))''.
\<close>

definition pacer_failure :: "Pacer \<Rightarrow> Pacer" where
  "pacer_failure p = p\<lparr>sleep := min (MaxSleep p) (sleep p * 2)\<rparr>"

definition pacer_success :: "Pacer \<Rightarrow> Pacer" where
  "pacer_success p =
     p\<lparr>sleep := max (MinSleep p) (sleep p / (2 powr (1 / real (DecayConstant p))))\<rparr>"

text \<open>
  Modelled from the spec: the setters the backends chain after \<open>pacer.New()\<close>.  The spec
  keeps the interval within \<open>[MinSleep, MaxSleep]\<close>, so a setter that moves a bound
  moves the interval with it.
\<close>

definition SetMinSleep :: "real \<Rightarrow> Pacer \<Rightarrow> Pacer" where
  "SetMinSleep t p = p\<lparr>MinSleep := t, sleep := max t (sleep p)\<rparr>"

definition SetMaxSleep :: "real \<Rightarrow> Pacer \<Rightarrow> Pacer" where
  "SetMaxSleep t p = p\<lparr>MaxSleep := t, sleep := min t (sleep p)\<rparr>"

definition SetDecayConstant :: "nat \<Rightarrow> Pacer \<Rightarrow> Pacer" where
  "SetDecayConstant d p = p\<lparr>DecayConstant := d\<rparr>"

text \<open>The constants of both backends: 10 ms, 2 s, and 2.\<close>

definition minSleep :: real where "minSleep = 10 / 1000"
definition maxSleep :: real where "maxSleep = 2"
definition decayConstant :: nat where "decayConstant = 2"

text \<open>
  \<open>pacer.New().SetMinSleep(minSleep).SetMaxSleep(maxSleep).SetDecayConstant(decayConstant)\<close>,
  with \<open>p0\<close> for what \<open>pacer.New()\<close> returns.
\<close>

definition backend_pacer :: "Pacer \<Rightarrow> Pacer" where
  "backend_pacer p0 = SetDecayConstant decayConstant (SetMaxSleep maxSleep (SetMinSleep minSleep p0))"

text \<open>The pacer after a series of call outcomes: \<open>True\<close> is a retryable failure.\<close>

fun pacer_after :: "bool list \<Rightarrow> Pacer \<Rightarrow> Pacer" where
  "pacer_after [] p = p"
| "pacer_after (failed # outcomes) p =
     pacer_after outcomes (if failed then pacer_failure p else pacer_success p)"

section \<open>Paths\<close>

text \<open>\<open>strings.Split(s, sep)\<close> for a one-byte separator.\<close>

fun strings_Split :: "string \<Rightarrow> char \<Rightarrow> string list" where
  "strings_Split [] sep = [[]]"
| "strings_Split (c # s) sep =
     (if c = sep then [] # strings_Split s sep
      else (case strings_Split s sep of
              [] \<Rightarrow> [[c]]
            | x # xs \<Rightarrow> (c # x) # xs))"

text \<open>\<open>strings.Trim(path, "/")\<close>, which is all that \<open>parsePath\<close> of both backends does.\<close>

definition parsePath :: "string \<Rightarrow> string" where
  "parsePath path =
     rev (dropWhile (\<lambda>c. c = CHR ''/'') (rev (dropWhile (\<lambda>c. c = CHR ''/'') path)))"

text \<open>
  Modelled from the spec: \<open>dircache.SplitPath\<close> (package \<open>lib/dircache\<close> is not among
  the sources), which ``splits path into (parent directory, leaf name)'': the leaf is
  what follows the last separator, the parent what precedes it, and a path without a
  separator is a leaf under the root \<open>""\<close>.
\<close>

definition SplitPath :: "string \<Rightarrow> string \<times> string" where
  "SplitPath path =
     (let leaf = rev (takeWhile (\<lambda>c. c \<noteq> CHR ''/'') (rev path))
      in if CHR ''/'' \<in> set path
         then (take (length path - length leaf - 1) path, leaf)
         else ('''', path))"

text \<open>
  Modelled from the spec: the ``ordered segments'' of a canonical relative path; the
  empty path, which denotes the root, has none.
\<close>

definition segments :: "string \<Rightarrow> string list" where
  "segments path = (if path = [] then [] else strings_Split path (CHR ''/''))"

definition join_path :: "string \<Rightarrow> string \<Rightarrow> string" where
  "join_path dir leaf = (if dir = [] then leaf else dir @ ''/'' @ leaf)"

section \<open>Requests, replies and the provider\<close>

text \<open>
  The items of the two provider APIs (\<open>api.Item\<close>), reduced to the fields the modelled
  functions read.  \<open>IsFolder\<close> is pcloud's field and the answer of onedrive's
  \<open>GetFolder() != nil\<close>; \<open>Deleted\<close> is onedrive's \<open>Deleted != nil\<close>.
\<close>

record Item =
  Name :: string
  ID :: string
  IsFolder :: bool
  ChildCount :: int
  Size :: int
  ModTime :: int
  Deleted :: bool

text \<open>\<open>rest.Opts\<close>; the content range is kept as its three numbers.\<close>

record Opts =
  Method :: string
  Path :: string
  RootURL :: string
  Parameters :: "(string \<times> string) list"
  ContentLength :: "int option"
  ContentRange :: "(int \<times> int \<times> int) option"
  NoResponse :: bool

definition Opts0 :: Opts where
  "Opts0 = \<lparr>Method = '''', Path = '''', RootURL = '''', Parameters = [],
             ContentLength = None, ContentRange = None, NoResponse = False\<rparr>"

text \<open>
  What a decoded JSON reply can hold; each call site reads the fields of the Go struct it
  decodes into, and a field the reply lacks has Go's zero value.
\<close>

record Body =
  bItem :: Item
  bContents :: "Item list"
  bValue :: "Item list"
  bNextLink :: string
  bUploadURL :: string
  bItems :: "Item list"
  bChecksums :: "(string \<times> string) list"

definition Item0 :: Item where
  "Item0 = \<lparr>Name = '''', ID = '''', IsFolder = False, ChildCount = 0, Size = 0, ModTime = 0,
             Deleted = False\<rparr>"

definition Body0 :: Body where
  "Body0 = \<lparr>bItem = Item0, bContents = [], bValue = [], bNextLink = '''', bUploadURL = '''',
             bItems = [], bChecksums = []\<rparr>"

text \<open>
  The outcome of one HTTP round trip as \<open>rest.Client.Call\<close>/\<open>CallJSON\<close> hands it back:
  the response (nil when the transport failed), the error (for pcloud after
  \<open>result.Error.Update\<close>), the content of the variable the reply is decoded into, the
  error of a decoding the caller does itself, and how many bytes of the request body
  the transport consumed.
\<close>

record http_result =
  hresp :: "Response option"
  herr :: "error option"
  hbody :: Body
  hdecode :: "error option"
  hread :: nat

definition result0 :: http_result where
  "result0 = \<lparr>hresp = None, herr = None, hbody = Body0, hdecode = None, hread = 0\<rparr>"

text \<open>
  What is observed of a run: every HTTP request with the fields of its JSON body or the
  bytes of its body that were sent, every repositioning of a fragment reader, the entry into \<open>uploadFragment\<close> and
  \<open>cancelUploadSession\<close>, and the log lines of \<open>fs.Logf\<close>.
\<close>

datatype event =
    Request Opts "(string \<times> string) list" string
  | SeekStart
  | UploadFragment string int int int
  | CancelUploadSession string
  | Logf string

section \<open>The directory cache\<close>

text \<open>
  Modelled from the spec: the \<open>DirectoryCache\<close> of package \<open>lib/dircache\<close>, which is
  not among the sources.  It is ``a bidirectional mapping between canonicalized
  relative path and opaque provider directory identifier, plus a root-resolution
  state''; the mapping is a list of pairs that \<open>Put\<close> keeps one-to-one.  \<open>rootID\<close> is
  the identifier the configured root resolved to, \<open>trueRootID\<close> the provider's own
  root, from which the configured root is resolved.
\<close>

datatype RootState = Unresolved | ResolvedAsDirectory | ResolvedAsParentOfFile

record DirCache =
  dcRoot :: string
  trueRootID :: string
  rootID :: string
  rootState :: RootState
  cached :: "(string \<times> string) list"

definition dircache_New :: "string \<Rightarrow> string \<Rightarrow> DirCache" where
  "dircache_New rootPath trueRoot =
     \<lparr>dcRoot = rootPath, trueRootID = trueRoot, rootID = trueRoot, rootState = Unresolved,
      cached = []\<rparr>"

definition dc_Get :: "DirCache \<Rightarrow> string \<Rightarrow> string option" where
  "dc_Get dc path = map_of (cached dc) path"

definition dc_GetInv :: "DirCache \<Rightarrow> string \<Rightarrow> string option" where
  "dc_GetInv dc i = map_of (map (\<lambda>(p, j). (j, p)) (cached dc)) i"

definition dc_Put :: "string \<Rightarrow> string \<Rightarrow> DirCache \<Rightarrow> DirCache" where
  "dc_Put path i dc =
     dc\<lparr>cached := (path, i) # filter (\<lambda>(p, j). p \<noteq> path \<and> j \<noteq> i) (cached dc)\<rparr>"

text \<open>
  Modelled from the spec: a path ``lies under \<open>path\<close> (inclusive)'' when it is that
  path or continues it after a separator; everything lies under the root \<open>""\<close>.
\<close>

definition lies_under :: "string \<Rightarrow> string \<Rightarrow> bool" where
  "lies_under dir p \<longleftrightarrow>
     dir = [] \<or> p = dir \<or> take (length dir + 1) p = dir @ ''/''"

definition dc_FlushDir :: "string \<Rightarrow> DirCache \<Rightarrow> DirCache" where
  "dc_FlushDir dir dc = dc\<lparr>cached := filter (\<lambda>(p, j). \<not> lies_under dir p) (cached dc)\<rparr>"

definition dc_ResetRoot :: "DirCache \<Rightarrow> DirCache" where
  "dc_ResetRoot dc = dc\<lparr>cached := [], rootState := Unresolved, rootID := trueRootID dc\<rparr>"

definition dc_FoundRoot :: "DirCache \<Rightarrow> bool" where
  "dc_FoundRoot dc \<longleftrightarrow> rootState dc = ResolvedAsDirectory"

section \<open>The world a backend runs in\<close>

text \<open>
  The provider is any deterministic server: \<open>serve w k opts\<close> is its answer to the
  \<open>k\<close>-th request of the run when that request is \<open>opts\<close>.  \<open>fserrors_ShouldRetry\<close> is
  \<open>fserrors.ShouldRetry\<close>, \<open>pathJoin\<close> is \<open>path.Join\<close> of the Go library,
  \<open>URLPathEscape\<close> is \<open>rest.URLPathEscape\<close>, \<open>onedrive_replaceReservedChars\<close> is the
  \<open>replaceReservedChars\<close> of package onedrive (its file is not among the sources), and
  \<open>MultipartUpload\<close> is \<open>rest.MultipartUpload\<close> followed by \<open>ioutil.ReadAll\<close> of the
  form: the first error is that of building the form, the second that of reading it.
  The mutable
  part is the count of requests made, the log of events, the pacer that every \<open>Fs\<close> of
  a connection shares, and the directory caches, each at the address its \<open>Fs\<close> holds.
\<close>

record world =
  serve :: "nat \<Rightarrow> Opts \<Rightarrow> http_result"
  fserrors_ShouldRetry :: "error option \<Rightarrow> bool"
  pathJoin :: "string \<Rightarrow> string \<Rightarrow> string"
  URLPathEscape :: "string \<Rightarrow> string"
  onedrive_replaceReservedChars :: "string \<Rightarrow> string"
  MultipartUpload :: "string \<Rightarrow> (string \<times> string) list \<Rightarrow> string \<Rightarrow> error + (error + string)"
  ncalls :: nat
  wlog :: "event list"
  pacer :: Pacer
  caches :: "nat \<Rightarrow> DirCache"
  ncaches :: nat

definition srv_CallJSON :: "Opts \<Rightarrow> (string \<times> string) list \<Rightarrow> world \<Rightarrow> http_result \<times> world" where
  "srv_CallJSON opts request w =
     (serve w (ncalls w) opts,
      w\<lparr>ncalls := Suc (ncalls w), wlog := wlog w @ [Request opts request []]\<rparr>)"

definition srv_Call :: "Opts \<Rightarrow> world \<Rightarrow> http_result \<times> world" where
  "srv_Call opts w = srv_CallJSON opts [] w"

definition upd_cache :: "nat \<Rightarrow> (DirCache \<Rightarrow> DirCache) \<Rightarrow> world \<Rightarrow> world" where
  "upd_cache a g w = w\<lparr>caches := (caches w)(a := g (caches w a))\<rparr>"

definition new_cache :: "DirCache \<Rightarrow> world \<Rightarrow> nat \<times> world" where
  "new_cache dc w = (ncaches w, w\<lparr>caches := (caches w)(ncaches w := dc), ncaches := Suc (ncaches w)\<rparr>)"

text \<open>
  Modelled from the spec: \<open>Call\<close> and \<open>CallNoRetry\<close> of the pacer.  ``\<open>Call(attempt)\<close>:
  invokes \<open>attempt\<close>, which performs one provider call and returns (shouldRetry,
  error).  If shouldRetry and the retry budget remains, sleep for the current interval,
  grow it, and retry; on success, shrink the interval; on non-retryable error, return
  immediately without further attempts.''  ``\<open>CallNoRetry(attempt)\<close>: invokes exactly
  once.''  The first argument of \<open>pacer_attempts\<close> is the budget that remains; \<open>c\<close> is
  the state of the variables the closure captures.
\<close>

definition pacer_settle :: "bool \<Rightarrow> error option \<Rightarrow> world \<Rightarrow> world" where
  "pacer_settle retry err w =
     (if \<not> retry \<and> err = None then w\<lparr>pacer := pacer_success (pacer w)\<rparr> else w)"

fun pacer_attempts ::
  "nat \<Rightarrow> ('c \<Rightarrow> world \<Rightarrow> (bool \<times> error option) \<times> 'c \<times> world) \<Rightarrow> 'c \<Rightarrow> world
     \<Rightarrow> error option \<times> 'c \<times> world" where
  "pacer_attempts 0 attempt c w =
     (case attempt c w of ((retry, err), c', w') \<Rightarrow> (err, c', pacer_settle retry err w'))"
| "pacer_attempts (Suc n) attempt c w =
     (case attempt c w of ((retry, err), c', w') \<Rightarrow>
        if retry then pacer_attempts n attempt c' (w'\<lparr>pacer := pacer_failure (pacer w')\<rparr>)
        else (err, c', pacer_settle retry err w'))"

definition pacer_Call ::
  "('c \<Rightarrow> world \<Rightarrow> (bool \<times> error option) \<times> 'c \<times> world) \<Rightarrow> 'c \<Rightarrow> world
     \<Rightarrow> error option \<times> 'c \<times> world" where
  "pacer_Call attempt c w = pacer_attempts (retryBudget (pacer w)) attempt c w"

definition pacer_CallNoRetry ::
  "('c \<Rightarrow> world \<Rightarrow> (bool \<times> error option) \<times> 'c \<times> world) \<Rightarrow> 'c \<Rightarrow> world
     \<Rightarrow> error option \<times> 'c \<times> world" where
  "pacer_CallNoRetry attempt c w = pacer_attempts 0 attempt c w"

text \<open>
  Modelled from the spec: the lookups of the directory cache.  ``\<open>FindDir\<close>: splits
  path into ordered segments relative to root; for each, checks the cache, falling back
  to the provider's \<open>FindLeaf(parentID, name)\<close>; on miss with create=true, calls
  \<open>CreateDir(parentID, name)\<close>; on miss with create=false, fails with DirNotFound.
  Every intermediate resolution is cached as a side effect.''  The two provider
  capabilities are the parameters \<open>findLeaf\<close> and \<open>createDir\<close>; \<open>a\<close> is the address of
  the cache, \<open>pre\<close> the path resolved so far and \<open>pid\<close> its identifier.
\<close>

type_synonym FindLeafFn = "string \<Rightarrow> string \<Rightarrow> world \<Rightarrow> (error + string option) \<times> world"
type_synonym CreateDirFn = "string \<Rightarrow> string \<Rightarrow> world \<Rightarrow> (error + string) \<times> world"

fun dc_walk ::
  "FindLeafFn \<Rightarrow> CreateDirFn \<Rightarrow> nat \<Rightarrow> bool \<Rightarrow> string \<Rightarrow> string \<Rightarrow> string list \<Rightarrow> world
     \<Rightarrow> (error + string) \<times> world" where
  "dc_walk findLeaf createDir a create pre pid [] w = (Inr pid, w)"
| "dc_walk findLeaf createDir a create pre pid (seg # segs) w =
     (let p = join_path pre seg in
      case dc_Get (caches w a) p of
        Some i \<Rightarrow> dc_walk findLeaf createDir a create p i segs w
      | None \<Rightarrow>
          (case findLeaf pid seg w of
             (Inl e, w1) \<Rightarrow> (Inl e, w1)
           | (Inr (Some i), w1) \<Rightarrow>
               dc_walk findLeaf createDir a create p i segs (upd_cache a (dc_Put p i) w1)
           | (Inr None, w1) \<Rightarrow>
               if create then
                 (case createDir pid seg w1 of
                    (Inl e, w2) \<Rightarrow> (Inl e, w2)
                  | (Inr i, w2) \<Rightarrow>
                      dc_walk findLeaf createDir a create p i segs (upd_cache a (dc_Put p i) w2))
               else (Inl ErrorDirNotFound, w1)))"

text \<open>
  Modelled from the spec: ``\<open>FindRoot(create)\<close>: resolves the configured root path to
  a directory ID once; idempotent on repeat calls after success.  If the root does not
  exist and create=false, fails with DirNotFound.''  The root is resolved from the
  provider's own root, whose identifier is cached under \<open>""\<close> meanwhile; once the root is
  found the cache holds the root alone, under \<open>""\<close>.
\<close>

definition FindRoot ::
  "FindLeafFn \<Rightarrow> CreateDirFn \<Rightarrow> nat \<Rightarrow> bool \<Rightarrow> world \<Rightarrow> error option \<times> world" where
  "FindRoot findLeaf createDir a create w =
     (let dc = caches w a in
      if rootState dc \<noteq> Unresolved then (None, w)
      else
        (case dc_walk findLeaf createDir a create '''' (trueRootID dc) (segments (dcRoot dc))
                (upd_cache a (dc_Put '''' (trueRootID dc)) w) of
           (Inl e, w1) \<Rightarrow> (Some e, w1)
         | (Inr i, w1) \<Rightarrow>
             (None, upd_cache a (\<lambda>dc. dc\<lparr>rootID := i, rootState := ResolvedAsDirectory,
                                           cached := [('''', i)]\<rparr>) w1)))"

definition FindDir ::
  "FindLeafFn \<Rightarrow> CreateDirFn \<Rightarrow> nat \<Rightarrow> string \<Rightarrow> bool \<Rightarrow> world \<Rightarrow> (error + string) \<times> world" where
  "FindDir findLeaf createDir a path create w =
     dc_walk findLeaf createDir a create '''' (rootID (caches w a)) (segments path) w"

text \<open>
  Modelled from the spec: ``\<open>FindPath\<close>: splits path into (parent directory, leaf
  name); resolves only the parent via \<open>FindDir\<close>''; ``\<open>FindRootAndPath\<close>: \<open>FindRoot\<close>
  then \<open>FindPath\<close>''.  The result is the leaf with the parent's identifier or the error.
\<close>

definition FindPath ::
  "FindLeafFn \<Rightarrow> CreateDirFn \<Rightarrow> nat \<Rightarrow> string \<Rightarrow> bool \<Rightarrow> world
     \<Rightarrow> (string \<times> (error + string)) \<times> world" where
  "FindPath findLeaf createDir a path create w =
     (case SplitPath path of (directory, leaf) \<Rightarrow>
        (case FindDir findLeaf createDir a directory create w of
           (r, w1) \<Rightarrow> ((leaf, r), w1)))"

definition FindRootAndPath ::
  "FindLeafFn \<Rightarrow> CreateDirFn \<Rightarrow> nat \<Rightarrow> string \<Rightarrow> bool \<Rightarrow> world
     \<Rightarrow> (string \<times> (error + string)) \<times> world" where
  "FindRootAndPath findLeaf createDir a path create w =
     (case FindRoot findLeaf createDir a create w of
        (Some e, w1) \<Rightarrow> (('''', Inl e), w1)
      | (None, w1) \<Rightarrow> FindPath findLeaf createDir a path create w1)"

section \<open>File systems and objects\<close>

record Options =
  ChunkSize :: int
  DriveID :: string
  DriveType :: string

text \<open>
  An \<open>Fs\<close> of either backend.  The connection, the pacer and the token renewer are
  shared by every \<open>Fs\<close> of a run and live in the world; \<open>f_dirCache\<close> is the address
  of the directory cache the \<open>Fs\<close> points to.
\<close>

record Fs =
  f_name :: string
  f_root :: string
  f_opt :: Options
  f_dirCache :: nat

record Object =
  o_fs :: Fs
  o_remote :: string
  o_hasMetaData :: bool
  o_size :: int
  o_modTime :: int
  o_id :: string


text \<open>How a constructor ends: it returns, or \<open>log.Fatalf\<close> stops the process.\<close>

datatype 'a exit = Return 'a | LogFatal

section \<open>The pcloud backend\<close>


definition dirIDtoNumber :: "string \<Rightarrow> string" where
  "dirIDtoNumber dirID =
     (if length dirID > 0 \<and> dirID ! 0 = CHR ''d'' then drop 1 dirID else dirID)"

text \<open>The loop of \<open>listAll\<close> over the items of the reply; \<open>c\<close> is what \<open>fn\<close> captures.\<close>

fun pcloud_listAll_items ::
  "bool \<Rightarrow> bool \<Rightarrow> (Item \<Rightarrow> 'c \<Rightarrow> world \<Rightarrow> bool \<times> 'c \<times> world) \<Rightarrow> Item list \<Rightarrow> 'c \<Rightarrow> world
     \<Rightarrow> bool \<times> 'c \<times> world" where
  "pcloud_listAll_items directoriesOnly filesOnly fn [] c w = (False, c, w)"
| "pcloud_listAll_items directoriesOnly filesOnly fn (it # items) c w =
     (if IsFolder it \<and> filesOnly
        then pcloud_listAll_items directoriesOnly filesOnly fn items c w
      else if \<not> IsFolder it \<and> directoriesOnly
        then pcloud_listAll_items directoriesOnly filesOnly fn items c w
      else
        (case fn (it\<lparr>Name := restoreReservedChars (Name it)\<rparr>) c w of
           (True, c', w') \<Rightarrow> (True, c', w')
         | (False, c', w') \<Rightarrow> pcloud_listAll_items directoriesOnly filesOnly fn items c' w'))"

definition pcloud_call :: "Opts \<Rightarrow> http_result \<Rightarrow> world \<Rightarrow> (bool \<times> error option) \<times> http_result \<times> world" where
  "pcloud_call opts result w =
     (case srv_Call opts w of
        (r, w') \<Rightarrow> (pcloud_shouldRetry (fserrors_ShouldRetry w') (hresp r) (herr r), r, w'))"

definition pcloud_listAll ::
  "string \<Rightarrow> bool \<Rightarrow> bool \<Rightarrow> (Item \<Rightarrow> 'c \<Rightarrow> world \<Rightarrow> bool \<times> 'c \<times> world) \<Rightarrow> 'c \<Rightarrow> world
     \<Rightarrow> (bool \<times> error option) \<times> 'c \<times> world" where
  "pcloud_listAll dirID directoriesOnly filesOnly fn c w =
     (let opts = Opts0\<lparr>Method := ''GET'', Path := ''/listfolder'',
                        Parameters := [(''folderid'', dirIDtoNumber dirID)]\<rparr> in
      case pacer_Call (pcloud_call opts) result0 w of
        (Some e, result, w1) \<Rightarrow> ((False, Some (Wrap e ''couldn't list files'')), c, w1)
      | (None, result, w1) \<Rightarrow>
          (case pcloud_listAll_items directoriesOnly filesOnly fn (bContents (hbody result)) c w1 of
             (found, c', w2) \<Rightarrow> ((found, None), c', w2)))"

definition pcloud_FindLeaf :: "string \<Rightarrow> string \<Rightarrow> world \<Rightarrow> (error + string option) \<times> world" where
  "pcloud_FindLeaf pathID leaf w =
     (case pcloud_listAll pathID True False
             (\<lambda>item pathIDOut w. if Name item = leaf then (True, ID item, w)
                                  else (False, pathIDOut, w)) '''' w of
        ((found, Some e), pathIDOut, w1) \<Rightarrow> (Inl e, w1)
      | ((found, None), pathIDOut, w1) \<Rightarrow>
          (if found then (Inr (Some pathIDOut), w1) else (Inr None, w1)))"

definition pcloud_CreateDir :: "string \<Rightarrow> string \<Rightarrow> world \<Rightarrow> (error + string) \<times> world" where
  "pcloud_CreateDir pathID leaf w =
     (let opts = Opts0\<lparr>Method := ''POST'', Path := ''/createfolder'',
                        Parameters := [(''name'', replaceReservedChars leaf),
                                       (''folderid'', dirIDtoNumber pathID)]\<rparr> in
      case pacer_Call (pcloud_call opts) result0 w of
        (Some e, result, w1) \<Rightarrow> (Inl e, w1)
      | (None, result, w1) \<Rightarrow> (Inr (ID (bItem (hbody result))), w1))"


definition pcloud_setMetaData :: "Object \<Rightarrow> Item option \<Rightarrow> error option \<times> Object" where
  "pcloud_setMetaData o' info =
     (case info of
        None \<Rightarrow> (Some (GoPanic ''nil pointer dereference''), o')
      | Some i \<Rightarrow>
          (if IsFolder i then (Some (Wrap ErrorNotAFile (o_remote o' @ '' is a folder'')), o')
           else (None, o'\<lparr>o_hasMetaData := True, o_size := Size i, o_modTime := ModTime i,
                            o_id := ID i\<rparr>)))"






text \<open>
  \<open>purgeCheck\<close> in two steps: up to the provider's answer to the deletion, and the
  flush of the cache that follows a deletion that succeeded.
\<close>

definition pcloud_purgeCheck_delete :: "Fs \<Rightarrow> string \<Rightarrow> bool \<Rightarrow> world \<Rightarrow> error option \<times> world" where
  "pcloud_purgeCheck_delete f dir check w =
     (let rootPath = pathJoin w (f_root f) dir in
      if rootPath = '''' then (Some (Errorf ''can't purge root directory''), w)
      else
        (case FindRoot pcloud_FindLeaf pcloud_CreateDir (f_dirCache f) False w of
           (Some e, w1) \<Rightarrow> (Some e, w1)
         | (None, w1) \<Rightarrow>
             (case FindDir pcloud_FindLeaf pcloud_CreateDir (f_dirCache f) dir False w1 of
                (Inl e, w2) \<Rightarrow> (Some e, w2)
              | (Inr rootID', w2) \<Rightarrow>
                  (let opts = Opts0\<lparr>Method := ''POST'',
                                     Path := (if \<not> check then ''/deletefolderrecursive''
                                              else ''/deletefolder''),
                                     Parameters := [(''folderid'', dirIDtoNumber rootID')]\<rparr> in
                   case pacer_Call (pcloud_call opts) result0 w2 of
                     (Some e, result, w3) \<Rightarrow> (Some (Wrap e ''rmdir failed''), w3)
                   | (None, result, w3) \<Rightarrow> (None, w3)))))"

definition pcloud_purgeCheck :: "Fs \<Rightarrow> string \<Rightarrow> bool \<Rightarrow> world \<Rightarrow> error option \<times> world" where
  "pcloud_purgeCheck f dir check w =
     (case pcloud_purgeCheck_delete f dir check w of
        (Some e, w1) \<Rightarrow> (Some e, w1)
      | (None, w1) \<Rightarrow> (None, upd_cache (f_dirCache f) (dc_FlushDir dir) w1))"

definition pcloud_Rmdir :: "Fs \<Rightarrow> string \<Rightarrow> world \<Rightarrow> error option \<times> world" where
  "pcloud_Rmdir f dir w = pcloud_purgeCheck f dir True w"

definition pcloud_Purge :: "Fs \<Rightarrow> world \<Rightarrow> error option \<times> world" where
  "pcloud_Purge f w = pcloud_purgeCheck f '''' False w"

section \<open>The onedrive backend\<close>

definition graphURL :: string where
  "graphURL = ''https://graph.microsoft.com/v1.0''"

definition parseDirID :: "string \<Rightarrow> string \<times> string \<times> string" where
  "parseDirID dirID =
     (if strings_Index dirID ''#'' \<ge> 0 then
        (let s = strings_Split dirID (CHR ''#'') in (s ! 1, s ! 0, graphURL @ ''/drives''))
      else (dirID, '''', ''''))"

definition newOptsCall :: "string \<Rightarrow> string \<Rightarrow> string \<Rightarrow> Opts" where
  "newOptsCall dirID method route =
     (case parseDirID dirID of
        (i, drive, rootURL) \<Rightarrow>
          (if drive \<noteq> '''' then
             Opts0\<lparr>Method := method, RootURL := rootURL,
                    Path := ''/'' @ drive @ ''/items/'' @ i @ route\<rparr>
           else Opts0\<lparr>Method := method, Path := ''/items/'' @ i @ route\<rparr>))"

definition onedrive_call ::
  "Opts \<Rightarrow> (string \<times> string) list \<Rightarrow> http_result \<Rightarrow> world
     \<Rightarrow> (bool \<times> error option) \<times> http_result \<times> world" where
  "onedrive_call opts request result w =
     (case srv_CallJSON opts request w of
        (r, w') \<Rightarrow> (onedrive_shouldRetry (fserrors_ShouldRetry w') (hresp r) (herr r), r, w'))"

text \<open>
  A reply is decoded into \<open>info\<close> only when the call did not fail; \<open>info\<close> is nil
  otherwise.
\<close>

definition decoded_item :: "error option \<Rightarrow> http_result \<Rightarrow> Item option" where
  "decoded_item err result = (if err = None then Some (bItem (hbody result)) else None)"

definition onedrive_readMetaDataForPath ::
  "string \<Rightarrow> world \<Rightarrow> (Item option \<times> Response option \<times> error option) \<times> world" where
  "onedrive_readMetaDataForPath path w =
     (let opts = (if length path = 0 then Opts0\<lparr>Method := ''GET'', Path := ''/root''\<rparr>
                  else Opts0\<lparr>Method := ''GET'',
                         Path := ''/root:/'' @ URLPathEscape w (onedrive_replaceReservedChars w path)\<rparr>)
      in case pacer_Call (onedrive_call opts []) result0 w of
           (err, result, w1) \<Rightarrow> ((decoded_item err result, hresp result, err), w1))"

definition rootSlash :: "Fs \<Rightarrow> string" where
  "rootSlash f = (if f_root f = '''' then f_root f else f_root f @ ''/'')"

definition onedrive_FindLeaf :: "Fs \<Rightarrow> string \<Rightarrow> string \<Rightarrow> world \<Rightarrow> (error + string option) \<times> world" where
  "onedrive_FindLeaf f pathID leaf w =
     (case dc_GetInv (caches w (f_dirCache f)) pathID of
        None \<Rightarrow> (Inl (Errorf ''couldn't find parent ID''), w)
      | Some parent \<Rightarrow>
          (let path = (if parent \<noteq> '''' then parent @ ''/'' @ leaf else leaf);
               path = (if dc_FoundRoot (caches w (f_dirCache f)) then rootSlash f @ path else path)
           in case onedrive_readMetaDataForPath path w of
                ((info, resp, Some e), w1) \<Rightarrow>
                  (case resp of
                     None \<Rightarrow> (Inl e, w1)
                   | Some r \<Rightarrow> if StatusCode r = 404 then (Inr None, w1) else (Inl e, w1))
              | ((None, resp, None), w1) \<Rightarrow> (Inl (GoPanic ''nil pointer dereference''), w1)
              | ((Some i, resp, None), w1) \<Rightarrow>
                  (if \<not> IsFolder i then (Inl (Errorf ''found file when looking for folder''), w1)
                   else (Inr (Some (ID i)), w1))))"

definition onedrive_CreateDir :: "string \<Rightarrow> string \<Rightarrow> world \<Rightarrow> (error + string) \<times> world" where
  "onedrive_CreateDir dirID leaf w =
     (let opts = newOptsCall dirID ''POST'' ''/children'';
          mkdir = [(''name'', onedrive_replaceReservedChars w leaf),
                   (''@microsoft.graph.conflictBehavior'', ''fail'')]
      in case pacer_Call (onedrive_call opts mkdir) result0 w of
           (Some e, result, w1) \<Rightarrow> (Inl e, w1)
         | (None, result, w1) \<Rightarrow> (Inr (ID (bItem (hbody result))), w1))"

definition onedrive_srvPath :: "Object \<Rightarrow> world \<Rightarrow> string" where
  "onedrive_srvPath o' w = onedrive_replaceReservedChars w (rootSlash (o_fs o') @ o_remote o')"

definition onedrive_setMetaData :: "Object \<Rightarrow> Item option \<Rightarrow> error option \<times> Object" where
  "onedrive_setMetaData o' info =
     (case info of
        None \<Rightarrow> (Some (GoPanic ''nil pointer dereference''), o')
      | Some i \<Rightarrow>
          (if IsFolder i then (Some (Wrap ErrorNotAFile (o_remote o')), o')
           else (None, o'\<lparr>o_hasMetaData := True, o_size := Size i, o_modTime := ModTime i,
                            o_id := ID i\<rparr>)))"

definition onedrive_readMetaData :: "Object \<Rightarrow> world \<Rightarrow> (error option \<times> Object) \<times> world" where
  "onedrive_readMetaData o' w =
     (if o_hasMetaData o' then ((None, o'), w)
      else
        (case onedrive_readMetaDataForPath (onedrive_srvPath o' w) w of
           ((info, resp, Some e), w1) \<Rightarrow>
             (case e of
                ApiError c code \<Rightarrow>
                  (if code = ''itemNotFound'' then ((Some ErrorObjectNotFound, o'), w1)
                   else ((Some e, o'), w1))
              | _ \<Rightarrow> ((Some e, o'), w1))
         | ((info, resp, None), w1) \<Rightarrow> (onedrive_setMetaData o' info, w1)))"

definition onedrive_newObjectWithInfo ::
  "Fs \<Rightarrow> string \<Rightarrow> Item option \<Rightarrow> world \<Rightarrow> (error + Object) \<times> world" where
  "onedrive_newObjectWithInfo f remote info w =
     (let o' = \<lparr>o_fs = f, o_remote = remote, o_hasMetaData = False, o_size = 0, o_modTime = 0,
                o_id = ''''\<rparr> in
      case (if info \<noteq> None then (onedrive_setMetaData o' info, w) else onedrive_readMetaData o' w) of
        ((Some e, o''), w1) \<Rightarrow> (Inl e, w1)
      | ((None, o''), w1) \<Rightarrow> (Inr o'', w1))"

text \<open>
  \<open>NewFs\<close> from the point where the options have passed the checks: the rest of the
  construction, with its calls to the provider.
\<close>

definition onedrive_NewFs_connect ::
  "string \<Rightarrow> string \<Rightarrow> Options \<Rightarrow> error option \<Rightarrow> world
     \<Rightarrow> (Fs option \<times> error option) exit \<times> world" where
  "onedrive_NewFs_connect name rootArg opt oauth w =
     (let rootPath = parsePath rootArg in
      case oauth of
        Some e \<Rightarrow> (LogFatal, w)
      | None \<Rightarrow>
          (case onedrive_readMetaDataForPath '''' (w\<lparr>pacer := backend_pacer (pacer w)\<rparr>) of
             ((rootInfo, resp, Some e), w0) \<Rightarrow>
               (Return (None, Some (Wrap e ''failed to get root'')), w0)
           | ((None, resp, None), w0) \<Rightarrow>
               (Return (None, Some (GoPanic ''nil pointer dereference'')), w0)
           | ((Some rootInfo, resp, None), w0) \<Rightarrow>
               (if ID rootInfo = '''' then (Return (None, None), w0)
                else
                  (case new_cache (dircache_New rootPath (ID rootInfo)) w0 of
                     (a, w1) \<Rightarrow>
                       (let f = \<lparr>f_name = name, f_root = rootPath, f_opt = opt, f_dirCache = a\<rparr> in
                        case FindRoot (onedrive_FindLeaf f) onedrive_CreateDir a False w1 of
                          (None, w2) \<Rightarrow> (Return (Some f, None), w2)
                        | (Some e, w2) \<Rightarrow>
                            (case SplitPath rootPath of
                               (newRoot, remote) \<Rightarrow>
                                 (case new_cache (dircache_New newRoot (ID rootInfo)) w2 of
                                    (a', w3) \<Rightarrow>
                                      (let newF = f\<lparr>f_dirCache := a', f_root := newRoot\<rparr> in
                                       case FindRoot (onedrive_FindLeaf newF) onedrive_CreateDir a'
                                              False w3 of
                                         (Some e', w4) \<Rightarrow> (Return (Some f, None), w4)
                                       | (None, w4) \<Rightarrow>
                                           (case onedrive_newObjectWithInfo newF remote None w4 of
                                              (Inl e', w5) \<Rightarrow>
                                                (if e' = ErrorObjectNotFound
                                                 then (Return (Some f, None), w5)
                                                 else (Return (None, Some e'), w5))
                                            | (Inr obj, w5) \<Rightarrow>
                                                (Return (Some newF, Some ErrorIsFile), w5))))))))))"

text \<open>
  \<open>NewFs\<close>: \<open>parsed\<close> is what \<open>configstruct.Set\<close> makes of the configuration, \<open>oauth\<close>
  the error of \<open>oauthutil.NewClient\<close>.
\<close>

definition onedrive_NewFs ::
  "string \<Rightarrow> string \<Rightarrow> error + Options \<Rightarrow> error option \<Rightarrow> world
     \<Rightarrow> (Fs option \<times> error option) exit \<times> world" where
  "onedrive_NewFs name rootArg parsed oauth w =
     (case parsed of
        Inl e \<Rightarrow> (Return (None, Some e), w)
      | Inr opt \<Rightarrow>
          (if go_rem (ChunkSize opt) (320 * 1024) \<noteq> 0 then
             (Return (None, Some (Errorf ''chunk size is not a multiple of 320k'')), w)
           else if DriveID opt = '''' \<or> DriveType opt = '''' then (LogFatal, w)
           else onedrive_NewFs_connect name rootArg opt oauth w))"

section \<open>onedrive: the chunked upload\<close>

text \<open>
  Modelled from the spec: the reader of one fragment,
  \<open>readers.NewRepeatableReader(io.LimitReader(in, n))\<close> (package \<open>lib/readers\<close> is not
  among the sources).  ``The fragment's data source must support being re-read from its
  start on retry'': the reader keeps what it has delivered (\<open>rr_buf\<close>), \<open>rr_off\<close> is
  its position in that, and \<open>rr_in\<close> is what the limited input has not delivered yet.
\<close>

record RepeatableReader =
  rr_in :: string
  rr_buf :: string
  rr_off :: nat

definition NewRepeatableReader :: "string \<Rightarrow> int \<Rightarrow> RepeatableReader" where
  "NewRepeatableReader input n = \<lparr>rr_in = take (nat n) input, rr_buf = [], rr_off = 0\<rparr>"

definition rr_SeekStart :: "RepeatableReader \<Rightarrow> RepeatableReader" where
  "rr_SeekStart r = r\<lparr>rr_off := 0\<rparr>"

text \<open>Reading up to \<open>k\<close> bytes: first what was delivered before, then fresh input.\<close>

definition rr_Read :: "nat \<Rightarrow> RepeatableReader \<Rightarrow> string \<times> RepeatableReader" where
  "rr_Read k r =
     (let replayed = take k (drop (rr_off r) (rr_buf r));
          fresh = take (k - length replayed) (rr_in r)
      in (replayed @ fresh,
          \<lparr>rr_in = drop (k - length replayed) (rr_in r), rr_buf = rr_buf r @ fresh,
           rr_off = rr_off r + length replayed + length fresh\<rparr>))"

text \<open>A request whose body is the fragment reader: the transport reads \<open>hread\<close> bytes.\<close>

definition srv_Call_body ::
  "Opts \<Rightarrow> RepeatableReader \<Rightarrow> world \<Rightarrow> http_result \<times> RepeatableReader \<times> world" where
  "srv_Call_body opts chunk w =
     (let r = serve w (ncalls w) opts in
      case rr_Read (hread r) chunk of
        (sent, chunk') \<Rightarrow>
          (r, chunk', w\<lparr>ncalls := Suc (ncalls w), wlog := wlog w @ [Request opts [] sent]\<rparr>))"

text \<open>
  The closure \<open>uploadFragment\<close> gives to the pacer.  It captures the reader and \<open>info\<close>.
\<close>

definition uploadFragment_attempt ::
  "Opts \<Rightarrow> RepeatableReader \<times> Item option \<Rightarrow> world
     \<Rightarrow> (bool \<times> error option) \<times> (RepeatableReader \<times> Item option) \<times> world" where
  "uploadFragment_attempt opts c w =
     (case c of (chunk, info) \<Rightarrow>
        (case srv_Call_body opts (rr_SeekStart chunk) (w\<lparr>wlog := wlog w @ [SeekStart]\<rparr>) of
           (r, chunk', w1) \<Rightarrow>
             (case onedrive_shouldRetry (fserrors_ShouldRetry w1) (hresp r) (herr r) of
                (retry, err) \<Rightarrow>
                  (case hresp r of
                     Some resp \<Rightarrow>
                       (if \<not> retry \<and> (StatusCode resp = 200 \<or> StatusCode resp = 201)
                        then ((False, hdecode r), (chunk', Some (bItem (hbody r))), w1)
                        else ((retry, err), (chunk', info), w1))
                   | None \<Rightarrow> ((retry, err), (chunk', info), w1)))))"

definition uploadFragment ::
  "string \<Rightarrow> int \<Rightarrow> int \<Rightarrow> RepeatableReader \<Rightarrow> int \<Rightarrow> world
     \<Rightarrow> (Item option \<times> error option) \<times> RepeatableReader \<times> world" where
  "uploadFragment url start totalSize chunk chunkSize w =
     (let opts = Opts0\<lparr>Method := ''PUT'', RootURL := url, ContentLength := Some chunkSize,
                        ContentRange := Some (start, start + chunkSize - 1, totalSize)\<rparr>
      in case pacer_Call (uploadFragment_attempt opts) (chunk, None)
                (w\<lparr>wlog := wlog w @ [UploadFragment url start chunkSize totalSize]\<rparr>) of
           (err, (chunk', info), w1) \<Rightarrow> ((info, err), chunk', w1))"

definition cancelUploadSession :: "string \<Rightarrow> world \<Rightarrow> error option \<times> world" where
  "cancelUploadSession url w =
     (let opts = Opts0\<lparr>Method := ''DELETE'', RootURL := url, NoResponse := True\<rparr>
      in case pacer_Call (onedrive_call opts []) result0
                (w\<lparr>wlog := wlog w @ [CancelUploadSession url]\<rparr>) of
           (err, result, w1) \<Rightarrow> (err, w1))"

definition createUploadSession :: "Object \<Rightarrow> int \<Rightarrow> world \<Rightarrow> (string option \<times> error option) \<times> world" where
  "createUploadSession o' modTime w =
     (case FindPath (onedrive_FindLeaf (o_fs o')) onedrive_CreateDir (f_dirCache (o_fs o'))
             (o_remote o') False w of
        ((leaf, r), w1) \<Rightarrow>
          (let directoryID = (case r of Inl e \<Rightarrow> '''' | Inr d \<Rightarrow> d) in
           case parseDirID directoryID of
             (i, drive, rootURL) \<Rightarrow>
               (let opts =
                      (if drive \<noteq> '''' then
                         Opts0\<lparr>Method := ''POST'', RootURL := rootURL,
                                Path := ''/'' @ drive @ ''/items/'' @ i @ '':/''
                                        @ URLPathEscape w1 leaf @ '':/createUploadSession''\<rparr>
                       else
                         Opts0\<lparr>Method := ''POST'',
                                Path := ''/root:/'' @ URLPathEscape w1 (onedrive_srvPath o' w1)
                                        @ '':/createUploadSession''\<rparr>);
                    createRequest = [(''item.fileSystemInfo'', '''')]
                in case pacer_Call (onedrive_call opts createRequest) result0 w1 of
                     (err, result, w2) \<Rightarrow>
                       ((if err = None then Some (bUploadURL (hbody result)) else None, err), w2))))"

text \<open>
  The loop of \<open>uploadMultipart\<close> over the fragments.  It need not end (a chunk size of
  zero never lowers \<open>remaining\<close>), so not returning is the value \<open>None\<close>.  The result is
  \<open>info\<close> and \<open>err\<close> as the function returns them, with what is left of the input.
\<close>

partial_function (option) uploadMultipart_loop ::
  "Object \<Rightarrow> string \<Rightarrow> int \<Rightarrow> string \<Rightarrow> int \<Rightarrow> int \<Rightarrow> Item option \<Rightarrow> world
     \<Rightarrow> ((Item option \<times> error option) \<times> string \<times> world) option" where
  "uploadMultipart_loop o' uploadURL size' input remaining position info w =
     (if remaining > 0 then
        (let n = ChunkSize (f_opt (o_fs o'));
             n = (if remaining < n then remaining else n);
             seg = NewRepeatableReader input n
         in case uploadFragment uploadURL position size' seg n w of
              ((info', Some e), seg', w1) \<Rightarrow>
                Some ((None, Some e), drop (length (rr_buf seg')) input, w1)
            | ((info', None), seg', w1) \<Rightarrow>
                uploadMultipart_loop o' uploadURL size' (drop (length (rr_buf seg')) input)
                  (remaining - n) (position + n) info' w1)
      else Some ((info, None), input, w))"

text \<open>
  \<open>uploadMultipart\<close>; the function it defers runs on the way out, when the session
  exists.  The log line for a cancellation that failed carries the error of the upload.
\<close>

definition uploadMultipart ::
  "Object \<Rightarrow> string \<Rightarrow> int \<Rightarrow> int \<Rightarrow> world
     \<Rightarrow> ((Item option \<times> error option) \<times> string \<times> world) option" where
  "uploadMultipart o' input size' modTime w =
     (case createUploadSession o' modTime w of
        ((session, Some e), w1) \<Rightarrow> Some ((None, Some e), input, w1)
      | ((None, None), w1) \<Rightarrow> Some ((None, Some (GoPanic ''nil pointer dereference'')), input, w1)
      | ((Some uploadURL, None), w1) \<Rightarrow>
          (case uploadMultipart_loop o' uploadURL size' input size' 0 None w1 of
             None \<Rightarrow> None
           | Some ((info, None), input', w2) \<Rightarrow> Some ((info, None), input', w2)
           | Some ((info, Some err), input', w2) \<Rightarrow>
               (case cancelUploadSession uploadURL w2 of
                  (None, w3) \<Rightarrow> Some ((info, Some err), input', w3)
                | (Some cancelErr, w3) \<Rightarrow>
                    Some ((info, Some err), input',
                          w3\<lparr>wlog := wlog w3 @ [Logf ''Failed to cancel multipart upload'']\<rparr>))))"

definition onedrive_Update ::
  "Object \<Rightarrow> string \<Rightarrow> int \<Rightarrow> int \<Rightarrow> world \<Rightarrow> ((error option \<times> Object) \<times> string \<times> world) option" where
  "onedrive_Update o' input size' modTime w =
     (case uploadMultipart o' input size' modTime w of
        None \<Rightarrow> None
      | Some ((info, Some e), input', w1) \<Rightarrow> Some ((Some e, o'), input', w1)
      | Some ((info, None), input', w1) \<Rightarrow> Some (onedrive_setMetaData o' info, input', w1))"

section \<open>Moving and deleting directories\<close>

text \<open>
  \<open>DirMove\<close> of pcloud, in two steps as \<open>purgeCheck\<close>: up to the provider's answer
  to the rename, and the flush of the source's cache after a rename that succeeded.
  The source is an \<open>Fs\<close> of the same backend (the type assertion of the code holds).
\<close>

definition pcloud_DirMove_rename :: "Fs \<Rightarrow> Fs \<Rightarrow> string \<Rightarrow> string \<Rightarrow> world \<Rightarrow> error option \<times> world" where
  "pcloud_DirMove_rename f srcFs srcRemote dstRemote w =
     (let srcPath = pathJoin w (f_root srcFs) srcRemote;
          dstPath = pathJoin w (f_root f) dstRemote in
      if srcPath = '''' \<or> dstPath = '''' then (Some (Errorf ''can't move root directory''), w)
      else
        (case FindRoot pcloud_FindLeaf pcloud_CreateDir (f_dirCache srcFs) False w of
           (Some e, w1) \<Rightarrow> (Some e, w1)
         | (None, w1) \<Rightarrow>
             (case (if dstRemote \<noteq> ''''
                    then FindRoot pcloud_FindLeaf pcloud_CreateDir (f_dirCache f) True w1
                    else (if dc_FoundRoot (caches w1 (f_dirCache f)) then Some ErrorDirExists
                          else None, w1)) of
                (Some e, w2) \<Rightarrow> (Some e, w2)
              | (None, w2) \<Rightarrow>
                  (let findPath = (if dstRemote = '''' then f_root f else dstRemote) in
                   case FindPath pcloud_FindLeaf pcloud_CreateDir (f_dirCache f) findPath True w2 of
                     ((leaf, Inl e), w3) \<Rightarrow> (Some e, w3)
                   | ((leaf, Inr directoryID), w3) \<Rightarrow>
                       (case (if dstRemote \<noteq> '''' then
                                (case FindDir pcloud_FindLeaf pcloud_CreateDir (f_dirCache f)
                                        dstRemote False w3 of
                                   (Inl e, w4) \<Rightarrow>
                                     (if e = ErrorDirNotFound then None else Some e, w4)
                                 | (Inr i, w4) \<Rightarrow> (Some ErrorDirExists, w4))
                              else (None, w3)) of
                          (Some e, w4) \<Rightarrow> (Some e, w4)
                        | (None, w4) \<Rightarrow>
                            (case FindDir pcloud_FindLeaf pcloud_CreateDir (f_dirCache srcFs)
                                    srcRemote False w4 of
                               (Inl e, w5) \<Rightarrow> (Some e, w5)
                             | (Inr srcID, w5) \<Rightarrow>
                                 (let opts = Opts0\<lparr>Method := ''POST'', Path := ''/renamefolder'',
                                        Parameters := [(''folderid'', dirIDtoNumber srcID),
                                                       (''toname'', replaceReservedChars leaf),
                                                       (''tofolderid'', dirIDtoNumber directoryID)]\<rparr>
                                  in case pacer_Call (pcloud_call opts) result0 w5 of
                                       (err, result, w6) \<Rightarrow> (err, w6))))))))"

definition pcloud_DirMove :: "Fs \<Rightarrow> Fs \<Rightarrow> string \<Rightarrow> string \<Rightarrow> world \<Rightarrow> error option \<times> world" where
  "pcloud_DirMove f srcFs srcRemote dstRemote w =
     (case pcloud_DirMove_rename f srcFs srcRemote dstRemote w of
        (Some e, w1) \<Rightarrow> (Some e, w1)
      | (None, w1) \<Rightarrow> (None, upd_cache (f_dirCache srcFs) (dc_FlushDir srcRemote) w1))"

definition onedrive_deleteObject :: "string \<Rightarrow> world \<Rightarrow> error option \<times> world" where
  "onedrive_deleteObject i w =
     (let opts = (newOptsCall i ''DELETE'' '''')\<lparr>NoResponse := True\<rparr>
      in case pacer_Call (onedrive_call opts []) result0 w of
           (err, result, w1) \<Rightarrow> (err, w1))"

definition onedrive_purgeCheck_delete :: "Fs \<Rightarrow> string \<Rightarrow> bool \<Rightarrow> world \<Rightarrow> error option \<times> world" where
  "onedrive_purgeCheck_delete f dir check w =
     (let rootPath = pathJoin w (f_root f) dir in
      if rootPath = '''' then (Some (Errorf ''can't purge root directory''), w)
      else
        (case FindRoot (onedrive_FindLeaf f) onedrive_CreateDir (f_dirCache f) False w of
           (Some e, w1) \<Rightarrow> (Some e, w1)
         | (None, w1) \<Rightarrow>
             (case FindDir (onedrive_FindLeaf f) onedrive_CreateDir (f_dirCache f) dir False w1 of
                (Inl e, w2) \<Rightarrow> (Some e, w2)
              | (Inr rootID', w2) \<Rightarrow>
                  (case onedrive_readMetaDataForPath rootPath w2 of
                     ((item, resp, Some e), w3) \<Rightarrow> (Some e, w3)
                   | ((None, resp, None), w3) \<Rightarrow> (Some (GoPanic ''nil pointer dereference''), w3)
                   | ((Some item, resp, None), w3) \<Rightarrow>
                       (if \<not> IsFolder item then (Some (Errorf ''not a folder''), w3)
                        else if check \<and> ChildCount item \<noteq> 0
                          then (Some (Errorf ''folder not empty''), w3)
                        else onedrive_deleteObject rootID' w3)))))"

definition onedrive_purgeCheck :: "Fs \<Rightarrow> string \<Rightarrow> bool \<Rightarrow> world \<Rightarrow> error option \<times> world" where
  "onedrive_purgeCheck f dir check w =
     (case onedrive_purgeCheck_delete f dir check w of
        (Some e, w1) \<Rightarrow> (Some e, w1)
      | (None, w1) \<Rightarrow> (None, upd_cache (f_dirCache f) (dc_FlushDir dir) w1))"

definition onedrive_Rmdir :: "Fs \<Rightarrow> string \<Rightarrow> world \<Rightarrow> error option \<times> world" where
  "onedrive_Rmdir f dir w = onedrive_purgeCheck f dir True w"

definition onedrive_Purge :: "Fs \<Rightarrow> world \<Rightarrow> error option \<times> world" where
  "onedrive_Purge f w = onedrive_purgeCheck f '''' False w"

definition onedrive_DirMove_patch :: "Fs \<Rightarrow> Fs \<Rightarrow> string \<Rightarrow> string \<Rightarrow> world \<Rightarrow> error option \<times> world" where
  "onedrive_DirMove_patch f srcFs srcRemote dstRemote w =
     (let srcPath = pathJoin w (f_root srcFs) srcRemote;
          dstPath = pathJoin w (f_root f) dstRemote in
      if srcPath = '''' \<or> dstPath = '''' then (Some (Errorf ''can't move root directory''), w)
      else
        (case FindRoot (onedrive_FindLeaf srcFs) onedrive_CreateDir (f_dirCache srcFs) False w of
           (Some e, w1) \<Rightarrow> (Some e, w1)
         | (None, w1) \<Rightarrow>
             (case (if dstRemote \<noteq> ''''
                    then FindRoot (onedrive_FindLeaf f) onedrive_CreateDir (f_dirCache f) True w1
                    else (if dc_FoundRoot (caches w1 (f_dirCache f)) then Some ErrorDirExists
                          else None, w1)) of
                (Some e, w2) \<Rightarrow> (Some e, w2)
              | (None, w2) \<Rightarrow>
                  (let findPath = (if dstRemote = '''' then f_root f else dstRemote) in
                   case FindPath (onedrive_FindLeaf f) onedrive_CreateDir (f_dirCache f)
                          findPath True w2 of
                     ((leaf, Inl e), w3) \<Rightarrow> (Some e, w3)
                   | ((leaf, Inr dstDirectoryID), w3) \<Rightarrow>
                       (case (if dstRemote \<noteq> '''' then
                                (case FindDir (onedrive_FindLeaf f) onedrive_CreateDir
                                        (f_dirCache f) dstRemote False w3 of
                                   (Inl e, w4) \<Rightarrow>
                                     (if e = ErrorDirNotFound then None else Some e, w4)
                                 | (Inr i, w4) \<Rightarrow> (Some ErrorDirExists, w4))
                              else (None, w3)) of
                          (Some e, w4) \<Rightarrow> (Some e, w4)
                        | (None, w4) \<Rightarrow>
                            (case FindDir (onedrive_FindLeaf srcFs) onedrive_CreateDir
                                    (f_dirCache srcFs) srcRemote False w4 of
                               (Inl e, w5) \<Rightarrow> (Some e, w5)
                             | (Inr srcID, w5) \<Rightarrow>
                                 (case onedrive_readMetaDataForPath srcPath w5 of
                                    ((srcInfo, resp, Some e), w6) \<Rightarrow> (Some e, w6)
                                  | ((None, resp, None), w6) \<Rightarrow>
                                      (Some (GoPanic ''nil pointer dereference''), w6)
                                  | ((Some srcInfo, resp, None), w6) \<Rightarrow>
                                      (let opts = newOptsCall srcID ''PATCH'' '''';
                                           move = [(''name'', onedrive_replaceReservedChars w6 leaf),
                                                   (''parentReference.id'',
                                                    fst (parseDirID dstDirectoryID))]
                                       in case pacer_Call (onedrive_call opts move) result0 w6 of
                                            (err, result, w7) \<Rightarrow> (err, w7)))))))))"

definition onedrive_DirMove :: "Fs \<Rightarrow> Fs \<Rightarrow> string \<Rightarrow> string \<Rightarrow> world \<Rightarrow> error option \<times> world" where
  "onedrive_DirMove f srcFs srcRemote dstRemote w =
     (case onedrive_DirMove_patch f srcFs srcRemote dstRemote w of
        (Some e, w1) \<Rightarrow> (Some e, w1)
      | (None, w1) \<Rightarrow> (None, upd_cache (f_dirCache srcFs) (dc_FlushDir srcRemote) w1))"

section \<open>pcloud: the upload\<close>

text \<open>
  \<open>Update\<close> up to the request: the directory is resolved (and made), the options are
  built, and an upload of size 0 is turned into a form that is read into memory.  The
  result is the options and the body of the request, and what is left of the input.
\<close>

definition pcloud_Update_prepare ::
  "Object \<Rightarrow> string \<Rightarrow> int \<Rightarrow> int \<Rightarrow> world \<Rightarrow> (error + Opts \<times> string \<times> string) \<times> world" where
  "pcloud_Update_prepare o' input size' modTime w =
     (case FindRootAndPath pcloud_FindLeaf pcloud_CreateDir (f_dirCache (o_fs o')) (o_remote o')
             True w of
        ((leaf, Inl e), w1) \<Rightarrow> (Inl e, w1)
      | ((leaf, Inr directoryID), w1) \<Rightarrow>
          (let leaf = replaceReservedChars leaf;
               opts = Opts0\<lparr>Method := ''PUT'', Path := ''/uploadfile'',
                             ContentLength := Some size',
                             Parameters := [(''filename'', leaf),
                                            (''folderid'', dirIDtoNumber directoryID),
                                            (''nopartial'', ''1''),
                                            (''mtime'', Sprintf_d modTime)]\<rparr>
           in if size' = 0 then
                (case MultipartUpload w1 input (Parameters opts) leaf of
                   Inl e \<Rightarrow>
                     (Inl (Wrap e ''failed to make multipart upload for 0 length file''), w1)
                 | Inr (Inl e) \<Rightarrow>
                     (Inl (Wrap e ''failed to read multipart upload for 0 length file''), w1)
                 | Inr (Inr formBody) \<Rightarrow>
                     (Inr (opts\<lparr>Method := ''POST'', Parameters := [],
                                 ContentLength := Some (int (length formBody))\<rparr>,
                           formBody, []), w1))
              else (Inr (opts, input, []), w1)))"

text \<open>
  The closure \<open>Update\<close> gives to \<open>CallNoRetry\<close>; it captures the body, of which the
  transport reads \<open>hread\<close> bytes, and \<open>result\<close>.
\<close>

definition pcloud_upload_attempt ::
  "Opts \<Rightarrow> string \<times> http_result \<Rightarrow> world
     \<Rightarrow> (bool \<times> error option) \<times> (string \<times> http_result) \<times> world" where
  "pcloud_upload_attempt opts c w =
     (case c of (body, result) \<Rightarrow>
        (let r = serve w (ncalls w) opts in
         (pcloud_shouldRetry (fserrors_ShouldRetry w) (hresp r) (herr r),
          (drop (hread r) body, r),
          w\<lparr>ncalls := Suc (ncalls w),
            wlog := wlog w @ [Request opts [] (take (hread r) body)]\<rparr>)))"

text \<open>
  \<open>Update\<close>.  The hashes of the reply are not part of the object of the model, but the
  read of \<open>result.Checksums[0]\<close> is, with the panic of an empty list.
\<close>

definition pcloud_Update ::
  "Object \<Rightarrow> string \<Rightarrow> int \<Rightarrow> int \<Rightarrow> world \<Rightarrow> (error option \<times> Object) \<times> string \<times> world" where
  "pcloud_Update o' input size' modTime w =
     (case pcloud_Update_prepare o' input size' modTime w of
        (Inl e, w1) \<Rightarrow> ((Some e, o'), input, w1)
      | (Inr (opts, body, unsent), w1) \<Rightarrow>
          (case pacer_CallNoRetry (pcloud_upload_attempt opts) (body, result0) w1 of
             (Some e, (body', result), w2) \<Rightarrow> ((Some e, o'), body' @ unsent, w2)
           | (None, (body', result), w2) \<Rightarrow>
               (if length (bItems (hbody result)) \<noteq> 1
                  then ((Some (Errorf ''failed to upload - not sure why''), o'), body' @ unsent, w2)
                else if bChecksums (hbody result) = []
                  then ((Some (GoPanic ''index out of range''), o'), body' @ unsent, w2)
                else (pcloud_setMetaData o' (Some (bItems (hbody result) ! 0)), body' @ unsent, w2))))"

text \<open>The requests of an upload among the events.\<close>

definition is_upload :: "event \<Rightarrow> bool" where
  "is_upload ev = (case ev of Request opts req body \<Rightarrow> Path opts = ''/uploadfile'' | _ \<Rightarrow> False)"

section \<open>Observations of a run\<close>

text \<open>
  What the claims about the upload speak of: which events a step added to the log, the
  fragments and the cancellations among them, and the options of a fragment's request
  (the record \<open>uploadFragment\<close> builds).
\<close>

definition is_request :: "event \<Rightarrow> bool" where
  "is_request ev = (case ev of Request opts req body \<Rightarrow> True | _ \<Rightarrow> False)"

definition is_transfer :: "event \<Rightarrow> bool" where
  "is_transfer ev = (case ev of Request opts req body \<Rightarrow> True | SeekStart \<Rightarrow> True | _ \<Rightarrow> False)"

definition logs_only :: "(event \<Rightarrow> bool) \<Rightarrow> world \<Rightarrow> world \<Rightarrow> bool" where
  "logs_only P w w' \<longleftrightarrow> (\<exists>evs. wlog w' = wlog w @ evs \<and> list_all P evs)"

fun fragments :: "event list \<Rightarrow> (string \<times> int \<times> int \<times> int) list" where
  "fragments [] = []"
| "fragments (UploadFragment url start n totalSize # evs) = (url, start, n, totalSize) # fragments evs"
| "fragments (ev # evs) = fragments evs"

fun cancellations :: "event list \<Rightarrow> string list" where
  "cancellations [] = []"
| "cancellations (CancelUploadSession url # evs) = url # cancellations evs"
| "cancellations (ev # evs) = cancellations evs"

definition fragment_opts :: "string \<Rightarrow> int \<Rightarrow> int \<Rightarrow> int \<Rightarrow> Opts" where
  "fragment_opts url start totalSize chunkSize =
     Opts0\<lparr>Method := ''PUT'', RootURL := url, ContentLength := Some chunkSize,
            ContentRange := Some (start, start + chunkSize - 1, totalSize)\<rparr>"

definition attempt_events :: "Opts \<Rightarrow> world \<Rightarrow> string \<Rightarrow> nat \<Rightarrow> event list" where
  "attempt_events opts w data j =
     [SeekStart, Request opts [] (take (hread (serve w (ncalls w + j) opts)) data)]"


section \<open>Example worlds\<close>

text \<open>
  Concrete providers, to run the model on: \<open>reply code n\<close> answers with the status
  \<open>code\<close> (an error from 400 on) after the transport has read \<open>n\<close> bytes.
\<close>

definition reply :: "int \<Rightarrow> nat \<Rightarrow> http_result" where
  "reply code nread =
     result0\<lparr>hresp := Some \<lparr>StatusCode = code, Header = (\<lambda>k. [])\<rparr>,
              herr := (if code \<ge> 400 then Some (ApiError code '''') else None),
              hread := nread\<rparr>"

definition world_of :: "(nat \<Rightarrow> Opts \<Rightarrow> http_result) \<Rightarrow> nat \<Rightarrow> world" where
  "world_of srv budget =
     \<lparr>serve = srv, fserrors_ShouldRetry = (\<lambda>e. False), pathJoin = join_path,
      URLPathEscape = (\<lambda>s. s), onedrive_replaceReservedChars = (\<lambda>s. s),
      MultipartUpload = (\<lambda>input params leaf. Inr (Inr input)),
      ncalls = 0, wlog = [],
      pacer = \<lparr>sleep = minSleep, MinSleep = minSleep, MaxSleep = maxSleep,
                DecayConstant = decayConstant, retryBudget = budget\<rparr>,
      caches = (\<lambda>a. dircache_New '''' ''''), ncaches = 0\<rparr>"

definition session_reply :: "string \<Rightarrow> http_result" where
  "session_reply url = (reply 200 0)\<lparr>hbody := Body0\<lparr>bUploadURL := url\<rparr>\<rparr>"

definition demo_fs :: Fs where
  "demo_fs = \<lparr>f_name = ''remote'', f_root = '''',
              f_opt = \<lparr>ChunkSize = 327680, DriveID = ''drive'', DriveType = ''personal''\<rparr>,
              f_dirCache = 0\<rparr>"

definition demo_object :: Object where
  "demo_object = \<lparr>o_fs = demo_fs, o_remote = ''f.txt'', o_hasMetaData = False, o_size = 0,
                  o_modTime = 0, o_id = ''''\<rparr>"

text \<open>
  Three providers.  The first creates the session, takes one fragment, refuses the
  second with a 400 and the cancellation with a 404; the second takes every fragment;
  the third answers the first attempt of a fragment with a 503 after two bytes.
\<close>

definition failing_provider :: "nat \<Rightarrow> Opts \<Rightarrow> http_result" where
  "failing_provider k opts =
     (if k = 0 then session_reply ''u'' else if k = 2 then reply 400 0
      else if k = 3 then reply 404 0 else reply 202 0)"

definition succeeding_provider :: "nat \<Rightarrow> Opts \<Rightarrow> http_result" where
  "succeeding_provider k opts =
     (if k = 0 then session_reply ''u'' else if k = 3 then reply 201 0 else reply 202 0)"

definition retrying_provider :: "nat \<Rightarrow> Opts \<Rightarrow> http_result" where
  "retrying_provider k opts = (if k = 0 then reply 503 2 else reply 201 5)"

text \<open>
  What a flush of the subtree \<open>dir\<close> makes of the cache at address \<open>a\<close>, from the world
  \<open>w1\<close> to the world \<open>w'\<close>: no entry whose path lies under \<open>dir\<close> is left, neither by
  path nor by identifier; an entry whose path lies outside is there exactly if it was;
  and nothing else in the cache, and no other cache, has changed.
\<close>

definition flushed :: "nat \<Rightarrow> string \<Rightarrow> world \<Rightarrow> world \<Rightarrow> bool" where
  "flushed a dir w1 w' \<longleftrightarrow>
     (\<forall>p. lies_under dir p \<longrightarrow> dc_Get (caches w' a) p = None)
   \<and> (\<forall>i p. dc_GetInv (caches w' a) i = Some p \<longrightarrow> \<not> lies_under dir p)
   \<and> (\<forall>p. \<not> lies_under dir p \<longrightarrow> dc_Get (caches w' a) p = dc_Get (caches w1 a) p)
   \<and> (\<forall>p i. \<not> lies_under dir p \<longrightarrow>
          ((p, i) \<in> set (cached (caches w' a)) \<longleftrightarrow> (p, i) \<in> set (cached (caches w1 a))))
   \<and> rootState (caches w' a) = rootState (caches w1 a)
   \<and> rootID (caches w' a) = rootID (caches w1 a)
   \<and> (\<forall>b. b \<noteq> a \<longrightarrow> caches w' b = caches w1 b)"

text \<open>
  A world whose cache at address 0 has its root resolved and knows four directories.
\<close>

definition cached_world :: "(nat \<Rightarrow> Opts \<Rightarrow> http_result) \<Rightarrow> world" where
  "cached_world srv =
     (world_of srv 3)\<lparr>caches := (\<lambda>a. \<lparr>dcRoot = '''', trueRootID = ''d0'', rootID = ''d0'',
                                        rootState = ResolvedAsDirectory,
                                        cached = [('''', ''d0''), (''a'', ''d1''), (''a/b'', ''d2''),
                                                  (''ab'', ''d3'')]\<rparr>),
                      ncaches := 1\<rparr>"

definition ok_provider :: "nat \<Rightarrow> Opts \<Rightarrow> http_result" where
  "ok_provider k opts = reply 200 0"

definition folder_provider :: "nat \<Rightarrow> Opts \<Rightarrow> http_result" where
  "folder_provider k opts = (reply 200 0)\<lparr>hbody := Body0\<lparr>bItem := Item0\<lparr>IsFolder := True\<rparr>\<rparr>\<rparr>"

definition missing_then_ok_provider :: "nat \<Rightarrow> Opts \<Rightarrow> http_result" where
  "missing_then_ok_provider k opts = (if k = 0 then reply 404 0 else reply 200 0)"

text \<open>The events that are no request of an upload.\<close>

definition not_upload :: "event \<Rightarrow> bool" where
  "not_upload ev \<longleftrightarrow> \<not> is_upload ev"

text \<open>A provider that answers every request with a 503, after two bytes of the body.\<close>

definition unavailable_provider :: "nat \<Rightarrow> Opts \<Rightarrow> http_result" where
  "unavailable_provider k opts = reply 503 2"

section \<open>A provider that holds a tree of folders\<close>




text \<open>
  Two worlds that differ in nothing but the requests made, the log and the pacer; and two
  worlds that differ in that and in the cache at one address.
\<close>

definition after_requests :: "world \<Rightarrow> world \<Rightarrow> bool" where
  "after_requests w w' \<longleftrightarrow>
     serve w' = serve w \<and> fserrors_ShouldRetry w' = fserrors_ShouldRetry w
   \<and> pathJoin w' = pathJoin w \<and> URLPathEscape w' = URLPathEscape w
   \<and> onedrive_replaceReservedChars w' = onedrive_replaceReservedChars w
   \<and> MultipartUpload w' = MultipartUpload w
   \<and> caches w' = caches w \<and> ncaches w' = ncaches w"

definition after_lookups :: "nat \<Rightarrow> world \<Rightarrow> world \<Rightarrow> bool" where
  "after_lookups a w w' \<longleftrightarrow>
     serve w' = serve w \<and> fserrors_ShouldRetry w' = fserrors_ShouldRetry w
   \<and> pathJoin w' = pathJoin w \<and> URLPathEscape w' = URLPathEscape w
   \<and> onedrive_replaceReservedChars w' = onedrive_replaceReservedChars w
   \<and> MultipartUpload w' = MultipartUpload w
   \<and> ncaches w' = ncaches w
   \<and> (\<forall>b. b \<noteq> a \<longrightarrow> caches w' b = caches w b)
   \<and> dcRoot (caches w' a) = dcRoot (caches w a)
   \<and> trueRootID (caches w' a) = trueRootID (caches w a)
   \<and> rootID (caches w' a) = rootID (caches w a)
   \<and> rootState (caches w' a) = rootState (caches w a)"




section \<open>Properties of the string functions\<close>

lemma strings_Index_nonneg_iff:
  "strings_Index s sub \<ge> 0 \<longleftrightarrow> (\<exists>u v. s = u @ sub @ v)"
proof (induction s)
  case Nil
  then show ?case by auto
next
  case (Cons c s)
  show ?case
  proof (cases "take (length sub) (c # s) = sub")
    case True
    then have "c # s = [] @ sub @ drop (length sub) (c # s)"
      by (metis append_Nil append_take_drop_id)
    then have "\<exists>u v. c # s = u @ sub @ v" by blast
    with True show ?thesis by simp
  next
    case False
    have "(\<exists>u v. c # s = u @ sub @ v) \<longleftrightarrow> (\<exists>u v. s = u @ sub @ v)"
    proof
      assume "\<exists>u v. c # s = u @ sub @ v"
      then obtain u v where uv: "c # s = u @ sub @ v" by blast
      show "\<exists>u v. s = u @ sub @ v"
      proof (cases u)
        case Nil
        with uv have "take (length sub) (c # s) = sub" by simp
        with False show ?thesis by simp
      next
        case (Cons a u')
        with uv have "s = u' @ sub @ v" by simp
        then show ?thesis by blast
      qed
    next
      assume "\<exists>u v. s = u @ sub @ v"
      then obtain u v where "s = u @ sub @ v" by blast
      then have "c # s = (c # u) @ sub @ v" by simp
      then show "\<exists>u v. c # s = u @ sub @ v" by blast
    qed
    moreover have "strings_Index (c # s) sub \<ge> 0 \<longleftrightarrow> strings_Index s sub \<ge> 0"
      using False by (simp add: Let_def)
    ultimately show ?thesis using Cons.IH by simp
  qed
qed

lemma go_quot_1000_eq_4: "go_quot c 1000 = 4 \<longleftrightarrow> 4000 \<le> c \<and> c \<le> 4999"
  unfolding go_quot_def by (cases "c < 0"; cases "c = 0") (auto simp: sgn_if)

lemma go_quot_1000_eq_5: "go_quot c 1000 = 5 \<longleftrightarrow> 5000 \<le> c \<and> c \<le> 5999"
  unfolding go_quot_def by (cases "c < 0"; cases "c = 0") (auto simp: sgn_if)

lemma ShouldRetryHTTP_codes:
  "ShouldRetryHTTP resp retryErrorCodes \<longleftrightarrow>
     (\<exists>r. resp = Some r \<and> StatusCode r \<in> {429, 500, 502, 503, 504, 509})"
  by (auto simp: ShouldRetryHTTP_def retryErrorCodes_def split: option.splits)

lemma expired_token_401_iff:
  "expired_token_401 resp \<longleftrightarrow>
     (\<exists>r h u v. resp = Some r \<and> StatusCode r = 401
        \<and> Header r ''Www-Authenticate'' = [h] \<and> h = u @ ''expired_token'' @ v)"
proof (cases resp)
  case None
  then show ?thesis by (simp add: expired_token_401_def)
next
  case (Some r)
  have len1: "length xs = 1 \<longleftrightarrow> (\<exists>h. xs = [h])" for xs :: "string list"
    by (cases xs) auto
  show ?thesis
  proof (cases "StatusCode r = 401 \<and> length (Header r ''Www-Authenticate'') = 1")
    case True
    then obtain h where h: "Header r ''Www-Authenticate'' = [h]"
      using len1 by blast
    with True Some show ?thesis
      using strings_Index_nonneg_iff [of h "''expired_token''"]
      by (simp add: expired_token_401_def)
  next
    case False
    with Some show ?thesis
      by (auto simp: expired_token_401_def)
  qed
qed

text \<open>
  C6.  For every response and error, \<open>shouldRetry\<close> answers true exactly when the HTTP
  status is one of 429, 500, 502, 503, 504, 509, or the error is a generic retryable
  network failure, or the response is a 401 whose single \<open>Www-Authenticate\<close> header
  contains \<open>expired_token\<close>, or (pcloud only) the error is an API error whose code lies
  in 4000..5999; and the second result is the error it was given.
\<close>

theorem shouldRetry_classification:
  "onedrive_shouldRetry netRetry resp err =
     ((\<exists>r. resp = Some r \<and> StatusCode r \<in> {429, 500, 502, 503, 504, 509})
      \<or> netRetry err
      \<or> (\<exists>r h u v. resp = Some r \<and> StatusCode r = 401
            \<and> Header r ''Www-Authenticate'' = [h] \<and> h = u @ ''expired_token'' @ v), err)
   \<and> pcloud_shouldRetry netRetry resp err =
     ((\<exists>r. resp = Some r \<and> StatusCode r \<in> {429, 500, 502, 503, 504, 509})
      \<or> netRetry err
      \<or> (\<exists>r h u v. resp = Some r \<and> StatusCode r = 401
            \<and> Header r ''Www-Authenticate'' = [h] \<and> h = u @ ''expired_token'' @ v)
      \<or> (\<exists>c msg. err = Some (ApiError c msg) \<and> 4000 \<le> c \<and> c \<le> 5999), err)"
proof -
  have api: "(case err of Some (ApiError result msg) \<Rightarrow>
                 (if go_quot result 1000 = 4 then True
                  else if go_quot result 1000 = 5 then True else False)
              | _ \<Rightarrow> False)
             \<longleftrightarrow> (\<exists>c msg. err = Some (ApiError c msg) \<and> 4000 \<le> c \<and> c \<le> 5999)"
    by (auto simp: go_quot_1000_eq_4 go_quot_1000_eq_5 split: option.splits error.splits)
  have one: "fst (onedrive_shouldRetry netRetry resp err) \<longleftrightarrow>
      (expired_token_401 resp \<or> netRetry err \<or> ShouldRetryHTTP resp retryErrorCodes)"
    by (simp add: onedrive_shouldRetry_def)
  have pc: "fst (pcloud_shouldRetry netRetry resp err) \<longleftrightarrow>
      ((\<exists>c msg. err = Some (ApiError c msg) \<and> 4000 \<le> c \<and> c \<le> 5999)
       \<or> expired_token_401 resp \<or> netRetry err \<or> ShouldRetryHTTP resp retryErrorCodes)"
    unfolding pcloud_shouldRetry_def Let_def fst_conv api [symmetric] by auto
  have snd1: "snd (onedrive_shouldRetry netRetry resp err) = err"
    by (simp add: onedrive_shouldRetry_def)
  have snd2: "snd (pcloud_shouldRetry netRetry resp err) = err"
    by (simp add: pcloud_shouldRetry_def Let_def)
  show ?thesis
    unfolding prod_eq_iff fst_conv snd_conv one pc snd1 snd2
      expired_token_401_iff ShouldRetryHTTP_codes
    by blast
qed


theorem shouldRetry_classification_witness:
  "onedrive_shouldRetry (\<lambda>e. False) (Some \<lparr>StatusCode = 503, Header = (\<lambda>k. [])\<rparr>) None
     = (True, None)
   \<and> pcloud_shouldRetry (\<lambda>e. False) (Some \<lparr>StatusCode = 200, Header = (\<lambda>k. [])\<rparr>)
       (Some (ApiError 4000 ''rate'')) = (True, Some (ApiError 4000 ''rate''))
   \<and> pcloud_shouldRetry (\<lambda>e. False) (Some \<lparr>StatusCode = 200, Header = (\<lambda>k. [])\<rparr>)
       (Some (ApiError 2005 ''missing'')) = (False, Some (ApiError 2005 ''missing''))"
  using shouldRetry_classification
          [of "\<lambda>e. False" "Some \<lparr>StatusCode = 503, Header = (\<lambda>k. [])\<rparr>" None]
        shouldRetry_classification
          [of "\<lambda>e. False" "Some \<lparr>StatusCode = 200, Header = (\<lambda>k. [])\<rparr>"
              "Some (ApiError 4000 ''rate'')"]
        shouldRetry_classification
          [of "\<lambda>e. False" "Some \<lparr>StatusCode = 200, Header = (\<lambda>k. [])\<rparr>"
              "Some (ApiError 2005 ''missing'')"]
  by simp

lemma strings_Replace_single_no_old:
  "c \<notin> set new \<Longrightarrow> c \<notin> set (strings_Replace x [c] new)"
  by (induction x "[c]" new rule: strings_Replace.induct) auto

lemma replaceReservedChars_no_backslash:
  "CHR 0x5C \<notin> set (replaceReservedChars x)"
  unfolding replaceReservedChars_def
  by (rule strings_Replace_single_no_old) simp

text \<open>
  C10.  The claim is that \<open>restoreReservedChars (replaceReservedChars x) = x\<close> for every
  name \<open>x\<close> without the FULLWIDTH REVERSE SOLIDUS.  With the literal of the source file the
  name made of two question marks and a backslash has no backslash after the
  replacement, but comes back as a backslash followed by two question marks.
\<close>

theorem reserved_chars_roundtrip_fails:
  "replaceReservedChars [CHR ''?'', CHR ''?'', CHR 0x5C] = ''?????''
   \<and> restoreReservedChars (replaceReservedChars [CHR ''?'', CHR ''?'', CHR 0x5C])
       = [CHR 0x5C, CHR ''?'', CHR ''?'']
   \<and> restoreReservedChars (replaceReservedChars [CHR ''?'', CHR ''?'', CHR 0x5C])
       \<noteq> [CHR ''?'', CHR ''?'', CHR 0x5C]"
  by (simp add: replaceReservedChars_def restoreReservedChars_def)


section \<open>Properties of the pacer\<close>

definition pacer_inv :: "Pacer \<Rightarrow> bool" where
  "pacer_inv p \<longleftrightarrow> 0 < MinSleep p \<and> MinSleep p \<le> sleep p \<and> sleep p \<le> MaxSleep p
      \<and> 0 < DecayConstant p"

lemma pacer_inv_backend: "pacer_inv (backend_pacer p0)"
  by (simp add: pacer_inv_def backend_pacer_def SetDecayConstant_def SetMaxSleep_def
      SetMinSleep_def minSleep_def maxSleep_def decayConstant_def)

lemma pacer_inv_failure: "pacer_inv p \<Longrightarrow> pacer_inv (pacer_failure p)"
  by (auto simp: pacer_inv_def pacer_failure_def)

lemma decay_factor_gt_1: "0 < d \<Longrightarrow> 1 < (2::real) powr (1 / real d)"
  by simp

lemma decay_factor_ge_1: "1 \<le> (2::real) powr (1 / real d)"
  by (rule ge_one_powr_ge_zero) auto

lemma divide_decay_le:
  assumes "0 \<le> (x::real)" "1 \<le> c"
  shows "x / c \<le> x"
proof -
  have "x / c \<le> x / 1" using assms by (intro divide_left_mono) auto
  then show ?thesis by simp
qed

lemma pacer_inv_success: "pacer_inv p \<Longrightarrow> pacer_inv (pacer_success p)"
proof -
  assume inv: "pacer_inv p"
  have "1 \<le> 2 powr (1 / real (DecayConstant p))"
    by (rule decay_factor_ge_1)
  moreover have "0 \<le> sleep p" using inv by (simp add: pacer_inv_def)
  ultimately have "sleep p / 2 powr (1 / real (DecayConstant p)) \<le> sleep p"
    by (rule divide_decay_le [rotated])
  with inv show ?thesis by (auto simp: pacer_inv_def pacer_success_def)
qed

lemma pacer_inv_after: "pacer_inv p \<Longrightarrow> pacer_inv (pacer_after outcomes p)"
  by (induction outcomes arbitrary: p) (auto simp: pacer_inv_failure pacer_inv_success)

lemma pacer_bounds_failure [simp]:
  "MinSleep (pacer_failure p) = MinSleep p" "MaxSleep (pacer_failure p) = MaxSleep p"
  "DecayConstant (pacer_failure p) = DecayConstant p"
  by (simp_all add: pacer_failure_def)

lemma pacer_bounds_success [simp]:
  "MinSleep (pacer_success p) = MinSleep p" "MaxSleep (pacer_success p) = MaxSleep p"
  "DecayConstant (pacer_success p) = DecayConstant p"
  by (simp_all add: pacer_success_def)

lemma pacer_bounds_after:
  "MinSleep (pacer_after outcomes p) = MinSleep p \<and> MaxSleep (pacer_after outcomes p) = MaxSleep p
   \<and> DecayConstant (pacer_after outcomes p) = DecayConstant p"
  by (induction outcomes arbitrary: p) auto

lemma pacer_bounds_backend:
  "MinSleep (backend_pacer p0) = minSleep" "MaxSleep (backend_pacer p0) = maxSleep"
  "DecayConstant (backend_pacer p0) = decayConstant"
  by (simp_all add: backend_pacer_def SetDecayConstant_def SetMaxSleep_def SetMinSleep_def)

lemma pacer_successes_sleep:
  assumes "pacer_inv p"
  shows "sleep ((pacer_success ^^ n) p)
           = max (MinSleep p) (sleep p / (2 powr (1 / real (DecayConstant p))) ^ n)"
proof (induction n)
  case 0
  from assms show ?case by (simp add: pacer_inv_def max_def)
next
  case (Suc n)
  let ?c = "2 powr (1 / real (DecayConstant p))"
  have c: "0 < ?c" by simp
  have bounds: "MinSleep ((pacer_success ^^ n) p) = MinSleep p"
    "DecayConstant ((pacer_success ^^ n) p) = DecayConstant p"
    by (induction n) auto
  have m: "0 < MinSleep p" using assms by (simp add: pacer_inv_def)
  have "sleep ((pacer_success ^^ Suc n) p)
          = max (MinSleep p) (max (MinSleep p) (sleep p / ?c ^ n) / ?c)"
    by (simp add: pacer_success_def bounds Suc.IH)
  also have "\<dots> = max (MinSleep p) (sleep p / ?c ^ Suc n)"
  proof -
    have c1: "1 \<le> ?c"
      by (rule decay_factor_ge_1)
    have le: "MinSleep p / ?c \<le> MinSleep p"
      using m c1 by (intro divide_decay_le) auto
    have step: "sleep p / ?c ^ Suc n = sleep p / ?c ^ n / ?c"
      by simp
    show ?thesis
    proof (cases "MinSleep p \<le> sleep p / ?c ^ n")
      case True
      then show ?thesis unfolding step by (simp add: max_def)
    next
      case False
      then have lt: "sleep p / ?c ^ n < MinSleep p" by simp
      have "0 \<le> sleep p / ?c ^ n" using assms by (simp add: pacer_inv_def)
      then have "sleep p / ?c ^ n / ?c \<le> sleep p / ?c ^ n"
        using c1 by (intro divide_decay_le) auto
      with lt have "sleep p / ?c ^ n / ?c \<le> MinSleep p" by linarith
      with False le show ?thesis unfolding step by (simp add: max_def)
    qed
  qed
  finally show ?case .
qed

lemma pacer_successes_reach_min:
  assumes "pacer_inv p"
  shows "\<exists>n. \<forall>m\<ge>n. sleep ((pacer_success ^^ m) p) = MinSleep p"
proof -
  let ?c = "2 powr (1 / real (DecayConstant p))"
  have "0 < DecayConstant p" using assms by (simp add: pacer_inv_def)
  then have c1: "1 < ?c" by (rule decay_factor_gt_1)
  have m: "0 < MinSleep p" and s: "0 < sleep p" using assms by (auto simp: pacer_inv_def)
  obtain n where n: "sleep p / MinSleep p < ?c ^ n"
    using real_arch_pow [OF c1] by blast
  have "sleep ((pacer_success ^^ k) p) = MinSleep p" if "n \<le> k" for k
  proof -
    have "?c ^ n \<le> ?c ^ k" using c1 that by (simp add: power_increasing)
    with n have "sleep p / MinSleep p < ?c ^ k" by linarith
    then have "sleep p < MinSleep p * ?c ^ k" using m by (simp add: divide_less_eq mult.commute)
    moreover have "0 < ?c ^ k" by simp
    ultimately have "sleep p / ?c ^ k < MinSleep p"
      by (simp add: divide_less_eq)
    then show ?thesis
      using pacer_successes_sleep [OF assms, of k] by (simp add: max_def)
  qed
  then show ?thesis by blast
qed

text \<open>
  C5.  Take the pacer as the backends configure it and let any series of call outcomes
  go by.  From the state reached, a further retryable failure never lowers the sleep
  interval and never takes it above \<open>MaxSleep\<close> (2 s); and there is a number of
  consecutive successes from which on the interval is exactly \<open>MinSleep\<close> (10 ms).
\<close>

theorem pacer_backoff_bounds:
  "(let p = pacer_after outcomes (backend_pacer p0) in
      sleep p \<le> sleep (pacer_failure p)
    \<and> sleep (pacer_failure p) \<le> MaxSleep p
    \<and> MaxSleep p = maxSleep \<and> MinSleep p = minSleep
    \<and> (\<exists>n. \<forall>m\<ge>n. sleep ((pacer_success ^^ m) p) = MinSleep p))"
proof -
  let ?p = "pacer_after outcomes (backend_pacer p0)"
  have inv: "pacer_inv ?p" by (simp add: pacer_inv_after pacer_inv_backend)
  have "sleep ?p \<le> sleep (pacer_failure ?p)"
    using inv by (auto simp: pacer_inv_def pacer_failure_def)
  moreover have "sleep (pacer_failure ?p) \<le> MaxSleep ?p"
    by (simp add: pacer_failure_def)
  moreover have "MaxSleep ?p = maxSleep" "MinSleep ?p = minSleep"
    by (simp_all add: pacer_bounds_after pacer_bounds_backend)
  moreover note pacer_successes_reach_min [OF inv]
  ultimately show ?thesis by (simp add: Let_def)
qed


theorem pacer_backoff_bounds_witness:
  "(let p = pacer_after [True, True]
              (backend_pacer \<lparr>sleep = 0, MinSleep = 0, MaxSleep = 0, DecayConstant = 0,
                 retryBudget = 0\<rparr>) in
      sleep p = 4 / 100 \<and> sleep (pacer_failure p) = 8 / 100
    \<and> sleep p \<le> sleep (pacer_failure p)
    \<and> sleep (pacer_failure p) \<le> MaxSleep p
    \<and> MaxSleep p = maxSleep \<and> MinSleep p = minSleep
    \<and> (\<exists>n. \<forall>m\<ge>n. sleep ((pacer_success ^^ m) p) = MinSleep p))"
  using pacer_backoff_bounds
          [of "[True, True]"
              "\<lparr>sleep = 0, MinSleep = 0, MaxSleep = 0, DecayConstant = 0, retryBudget = 0\<rparr>"]
  by (simp add: Let_def backend_pacer_def SetDecayConstant_def SetMaxSleep_def SetMinSleep_def
      minSleep_def maxSleep_def decayConstant_def pacer_failure_def)

section \<open>Properties of the chunked upload\<close>

lemma logs_only_refl [simp]: "logs_only P w w"
  by (simp add: logs_only_def)

lemma logs_only_trans: "logs_only P w w1 \<Longrightarrow> logs_only P w1 w2 \<Longrightarrow> logs_only P w w2"
  by (auto simp: logs_only_def)

lemma logs_only_pacer [simp]: "logs_only P w (w'\<lparr>pacer := p\<rparr>) = logs_only P w w'"
  by (simp add: logs_only_def)

lemma logs_only_upd_cache [simp]: "logs_only P w (upd_cache a g w') = logs_only P w w'"
  by (simp add: logs_only_def upd_cache_def)

lemma logs_only_settle [simp]: "logs_only P w (pacer_settle retry err w') = logs_only P w w'"
  by (simp add: pacer_settle_def)

lemma pacer_attempts_rel:
  assumes step: "\<And>c w r c' w'. attempt c w = (r, c', w') \<Longrightarrow> R w w'"
    and trans: "\<And>w w1 w2. R w w1 \<Longrightarrow> R w1 w2 \<Longrightarrow> R w w2"
    and pac: "\<And>w w' p. R w w' \<Longrightarrow> R w (w'\<lparr>pacer := p\<rparr>)"
  shows "pacer_attempts n attempt c w = (err, c', w') \<Longrightarrow> R w w'"
proof (induction n arbitrary: c w)
  case 0
  then show ?case
    by (auto simp: pacer_settle_def split: prod.splits if_splits dest!: step intro: pac)
next
  case (Suc n)
  obtain retry e c1 w1 where a: "attempt c w = ((retry, e), c1, w1)"
    by (metis prod.exhaust)
  have r1: "R w w1" using step [OF a] .
  show ?case
  proof (cases retry)
    case True
    with Suc.prems a have "pacer_attempts n attempt c1 (w1\<lparr>pacer := pacer_failure (pacer w1)\<rparr>) = (err, c', w')"
      by simp
    from Suc.IH [OF this] have "R (w1\<lparr>pacer := pacer_failure (pacer w1)\<rparr>) w'" .
    moreover have "R w (w1\<lparr>pacer := pacer_failure (pacer w1)\<rparr>)" using r1 by (rule pac)
    ultimately show ?thesis by (rule trans [rotated])
  next
    case False
    with Suc.prems a have "w' = pacer_settle retry e w1" by auto
    then show ?thesis using r1 by (auto simp: pacer_settle_def intro: pac)
  qed
qed

lemma srv_CallJSON_logs: "srv_CallJSON opts req w = (r, w') \<Longrightarrow> logs_only is_request w w'"
  by (auto simp: srv_CallJSON_def logs_only_def is_request_def)

lemma onedrive_call_logs: "onedrive_call opts req c w = (r, c', w') \<Longrightarrow> logs_only is_request w w'"
  by (auto simp: onedrive_call_def split: prod.splits dest: srv_CallJSON_logs)

lemma pacer_Call_onedrive_logs:
  "pacer_Call (onedrive_call opts req) c w = (err, c', w') \<Longrightarrow> logs_only is_request w w'"
  unfolding pacer_Call_def
  by (erule pacer_attempts_rel [rotated -1]) (auto dest: onedrive_call_logs intro: logs_only_trans)

lemma dc_walk_rel:
  assumes fl: "\<And>pid seg w r w'. findLeaf pid seg w = (r, w') \<Longrightarrow> R w w'"
    and cd: "\<And>pid seg w r w'. createDir pid seg w = (r, w') \<Longrightarrow> R w w'"
    and refl: "\<And>w. R w w"
    and trans: "\<And>w w1 w2. R w w1 \<Longrightarrow> R w1 w2 \<Longrightarrow> R w w2"
    and upd: "\<And>w w' a g. R w w' \<Longrightarrow> R w (upd_cache a g w')"
  shows "dc_walk findLeaf createDir a create pre pid segs w = (r, w') \<Longrightarrow> R w w'"
proof (induction segs arbitrary: pre pid w)
  case Nil
  then show ?case by (simp add: refl)
next
  case (Cons seg segs)
  let ?p = "join_path pre seg"
  show ?case
  proof (cases "dc_Get (caches w a) ?p")
    case (Some i)
    with Cons.prems have "dc_walk findLeaf createDir a create ?p i segs w = (r, w')"
      by (simp add: Let_def)
    then show ?thesis by (rule Cons.IH)
  next
    case None
    obtain fr w1 where f: "findLeaf pid seg w = (fr, w1)" by (metis prod.exhaust)
    have r1: "R w w1" using fl [OF f] .
    show ?thesis
    proof (cases fr)
      case (Inl e)
      with Cons.prems None f show ?thesis using r1 by (simp add: Let_def)
    next
      case (Inr found)
      show ?thesis
      proof (cases found)
        case (Some i)
        with Cons.prems None f Inr
        have "dc_walk findLeaf createDir a create ?p i segs (upd_cache a (dc_Put ?p i) w1) = (r, w')"
          by (simp add: Let_def)
        from Cons.IH [OF this] upd [OF r1] show ?thesis by (blast intro: trans)
      next
        case None': None
        show ?thesis
        proof (cases create)
          case False
          with Cons.prems None f Inr None' show ?thesis using r1 by (simp add: Let_def)
        next
          case True
          obtain cr w2 where c: "createDir pid seg w1 = (cr, w2)" by (metis prod.exhaust)
          have r2: "R w w2" using r1 cd [OF c] by (rule trans)
          show ?thesis
          proof (cases cr)
            case (Inl e)
            with Cons.prems None f Inr None' True c show ?thesis using r2 by (simp add: Let_def)
          next
            case Inr': (Inr i)
            with Cons.prems None f Inr None' True c
            have "dc_walk findLeaf createDir a create ?p i segs (upd_cache a (dc_Put ?p i) w2) = (r, w')"
              by (simp add: Let_def)
            from Cons.IH [OF this] upd [OF r2] show ?thesis by (blast intro: trans)
          qed
        qed
      qed
    qed
  qed
qed

lemma onedrive_readMetaDataForPath_logs:
  "onedrive_readMetaDataForPath path w = (r, w') \<Longrightarrow> logs_only is_request w w'"
  by (auto simp: onedrive_readMetaDataForPath_def Let_def split: prod.splits
      dest: pacer_Call_onedrive_logs)

lemma onedrive_FindLeaf_logs:
  "onedrive_FindLeaf f pid seg w = (r, w') \<Longrightarrow> logs_only is_request w w'"
  by (auto simp: onedrive_FindLeaf_def Let_def split: prod.splits option.splits if_splits
      dest: onedrive_readMetaDataForPath_logs)

lemma onedrive_CreateDir_logs:
  "onedrive_CreateDir pid seg w = (r, w') \<Longrightarrow> logs_only is_request w w'"
  by (auto simp: onedrive_CreateDir_def Let_def split: prod.splits option.splits
      dest: pacer_Call_onedrive_logs)

lemma onedrive_dc_walk_logs:
  "dc_walk (onedrive_FindLeaf f) onedrive_CreateDir a create pre pid segs w = (r, w')
     \<Longrightarrow> logs_only is_request w w'"
  by (erule dc_walk_rel [rotated -1])
     (auto dest: onedrive_FindLeaf_logs onedrive_CreateDir_logs intro: logs_only_trans)

lemma createUploadSession_logs:
  "createUploadSession o' modTime w = (r, w') \<Longrightarrow> logs_only is_request w w'"
  by (auto simp: createUploadSession_def FindPath_def FindDir_def Let_def
      split: prod.splits
      dest!: pacer_Call_onedrive_logs onedrive_dc_walk_logs intro: logs_only_trans)

lemma cancelUploadSession_log:
  "cancelUploadSession url w = (err, w')
     \<Longrightarrow> \<exists>evs. wlog w' = wlog w @ CancelUploadSession url # evs \<and> list_all is_request evs"
  by (auto simp: cancelUploadSession_def Let_def logs_only_def split: prod.splits
      dest!: pacer_Call_onedrive_logs)

lemma fragments_append [simp]: "fragments (xs @ ys) = fragments xs @ fragments ys"
  by (induction xs rule: fragments.induct) auto

lemma cancellations_append [simp]: "cancellations (xs @ ys) = cancellations xs @ cancellations ys"
  by (induction xs rule: cancellations.induct) auto

lemma rr_Read_SeekStart:
  "rr_Read k (rr_SeekStart r) = (sent, r')
     \<Longrightarrow> sent = take k (rr_buf r @ rr_in r) \<and> rr_buf r' @ rr_in r' = rr_buf r @ rr_in r"
  by (auto simp: rr_Read_def rr_SeekStart_def Let_def min_def)

lemma uploadFragment_attempt_log:
  assumes "uploadFragment_attempt opts (chunk, info) w = (r, (chunk', info'), w')"
  shows "wlog w' = wlog w @ [SeekStart,
            Request opts [] (take (hread (serve w (ncalls w) opts)) (rr_buf chunk @ rr_in chunk))]
         \<and> rr_buf chunk' @ rr_in chunk' = rr_buf chunk @ rr_in chunk
         \<and> ncalls w' = Suc (ncalls w) \<and> serve w' = serve w"
  using assms
  by (auto simp: uploadFragment_attempt_def srv_Call_body_def Let_def
      split: prod.splits option.splits if_splits dest!: rr_Read_SeekStart)

lemma uploadFragment_attempts_log:
  "pacer_attempts b (uploadFragment_attempt opts) (chunk, info) w = (err, (chunk', info'), w')
   \<Longrightarrow> \<exists>m>0. wlog w' = wlog w
              @ concat (map (attempt_events opts w (rr_buf chunk @ rr_in chunk)) [0..<m])
         \<and> rr_buf chunk' @ rr_in chunk' = rr_buf chunk @ rr_in chunk
         \<and> ncalls w' = ncalls w + m \<and> serve w' = serve w"
proof (induction b arbitrary: chunk info w)
  case 0
  obtain r c1 i1 w1 where a: "uploadFragment_attempt opts (chunk, info) w = (r, (c1, i1), w1)"
    by (metis prod.exhaust)
  from uploadFragment_attempt_log [OF a] "0.prems" a
  have "wlog w' = wlog w @ concat (map (attempt_events opts w (rr_buf chunk @ rr_in chunk)) [0..<1])
         \<and> rr_buf chunk' @ rr_in chunk' = rr_buf chunk @ rr_in chunk
         \<and> ncalls w' = ncalls w + 1 \<and> serve w' = serve w"
    by (auto simp: attempt_events_def pacer_settle_def split: prod.splits if_splits)
  then show ?case by (intro exI [of _ 1]) simp
next
  case (Suc b)
  obtain retry e c1 i1 w1 where a: "uploadFragment_attempt opts (chunk, info) w = ((retry, e), (c1, i1), w1)"
    by (metis prod.exhaust)
  note l1 = uploadFragment_attempt_log [OF a]
  show ?case
  proof (cases retry)
    case False
    with Suc.prems a l1
    have "wlog w' = wlog w @ concat (map (attempt_events opts w (rr_buf chunk @ rr_in chunk)) [0..<1])
         \<and> rr_buf chunk' @ rr_in chunk' = rr_buf chunk @ rr_in chunk
         \<and> ncalls w' = ncalls w + 1 \<and> serve w' = serve w"
      by (auto simp: attempt_events_def pacer_settle_def split: prod.splits if_splits)
    then show ?thesis by (intro exI [of _ 1]) simp
  next
    case True
    let ?w1 = "w1\<lparr>pacer := pacer_failure (pacer w1)\<rparr>"
    let ?data = "rr_buf chunk @ rr_in chunk"
    from True Suc.prems a
    have "pacer_attempts b (uploadFragment_attempt opts) (c1, i1) ?w1 = (err, (chunk', info'), w')"
      by simp
    from Suc.IH [OF this] l1 obtain m where m: "m > 0"
      "wlog w' = wlog ?w1 @ concat (map (attempt_events opts ?w1 ?data) [0..<m])"
      "rr_buf chunk' @ rr_in chunk' = ?data" "ncalls w' = ncalls ?w1 + m" "serve w' = serve ?w1"
      by auto
    have ev: "attempt_events opts ?w1 ?data j = attempt_events opts w ?data (Suc j)" for j
      using l1 by (simp add: attempt_events_def)
    have "map (attempt_events opts w ?data) [0..<Suc m]
          = attempt_events opts w ?data 0 # map (attempt_events opts ?w1 ?data) [0..<m]"
      by (simp add: ev upt_conv_Cons map_Suc_upt [symmetric] del: upt_Suc)
    then have "wlog w' = wlog w @ concat (map (attempt_events opts w ?data) [0..<Suc m])"
      using m(2) l1 by (simp add: attempt_events_def)
    with m l1 show ?thesis by (intro exI [of _ "Suc m"]) simp
  qed
qed

lemma uploadFragment_log:
  assumes "uploadFragment url start totalSize chunk chunkSize w = ((info, err), chunk', w')"
  shows "\<exists>m>0. wlog w' = wlog w @ UploadFragment url start chunkSize totalSize
            # concat (map (\<lambda>j. [SeekStart,
                 Request (fragment_opts url start totalSize chunkSize) []
                   (take (hread (serve w (ncalls w + j) (fragment_opts url start totalSize chunkSize)))
                      (rr_buf chunk @ rr_in chunk))]) [0..<m])"
proof -
  let ?w0 = "w\<lparr>wlog := wlog w @ [UploadFragment url start chunkSize totalSize]\<rparr>"
  let ?opts = "fragment_opts url start totalSize chunkSize"
  from assms obtain i where
    "pacer_attempts (retryBudget (pacer ?w0)) (uploadFragment_attempt ?opts) (chunk, None) ?w0
       = (err, (chunk', i), w')"
    by (auto simp: uploadFragment_def pacer_Call_def fragment_opts_def Let_def split: prod.splits)
  from uploadFragment_attempts_log [OF this] show ?thesis
    by (auto simp: attempt_events_def [abs_def])
qed

text \<open>
  C7.  Whatever \<open>uploadFragment\<close> returns, what it adds to the log is its own marker
  followed by one or more attempts, and every attempt is a repositioning of the reader to
  its start followed by the request.  The body the \<open>j\<close>-th request sent is the first
  \<open>hread\<close> bytes of what the fragment reader holds from its start, \<open>hread\<close> being how
  much the transport read that time: every attempt resends the same bytes from the
  first one on.
\<close>

theorem uploadFragment_seeks_before_each_request:
  assumes "uploadFragment url start totalSize chunk chunkSize w = ((info, err), chunk', w')"
  shows "\<exists>m>0. wlog w' = wlog w @ UploadFragment url start chunkSize totalSize
            # concat (map (\<lambda>j. [SeekStart,
                 Request (fragment_opts url start totalSize chunkSize) []
                   (take (hread (serve w (ncalls w + j) (fragment_opts url start totalSize chunkSize)))
                      (rr_buf chunk @ rr_in chunk))]) [0..<m])"
  using assms by (rule uploadFragment_log)


lemma request_events_no_markers:
  "list_all is_request evs \<Longrightarrow> fragments evs = [] \<and> cancellations evs = []"
  by (induction evs rule: fragments.induct) (auto simp: is_request_def)

lemma transfer_events_no_markers:
  "list_all is_transfer evs \<Longrightarrow> fragments evs = [] \<and> cancellations evs = []"
  by (induction evs rule: fragments.induct) (auto simp: is_transfer_def)

lemma attempt_events_transfer:
  "list_all is_transfer (concat (map (\<lambda>j. [SeekStart, Request (opts j) [] (body j)]) js))"
  by (induction js) (auto simp: is_transfer_def)

lemma uploadFragment_events:
  assumes "uploadFragment url start totalSize chunk chunkSize w = (r, chunk', w')"
  shows "\<exists>evs. wlog w' = wlog w @ UploadFragment url start chunkSize totalSize # evs
           \<and> fragments evs = [] \<and> cancellations evs = []"
proof -
  obtain info err where "r = (info, err)" by (cases r)
  with assms uploadFragment_log [of url start totalSize chunk chunkSize w info err chunk' w']
  obtain m where m: "wlog w' = wlog w @ UploadFragment url start chunkSize totalSize
            # concat (map (\<lambda>j. [SeekStart,
                 Request (fragment_opts url start totalSize chunkSize) []
                   (take (hread (serve w (ncalls w + j) (fragment_opts url start totalSize chunkSize)))
                      (rr_buf chunk @ rr_in chunk))]) [0..<m])"
    by auto
  show ?thesis
    by (rule exI, intro conjI, rule m)
       (simp_all add: transfer_events_no_markers [OF attempt_events_transfer])
qed

lemma loop_total:
  assumes C: "0 < ChunkSize (f_opt (o_fs o'))"
  shows "0 \<le> remaining \<Longrightarrow>
     \<exists>info err input' w' evs m.
        uploadMultipart_loop o' url S input remaining position info0 w
          = Some ((info, err), input', w')
      \<and> wlog w' = wlog w @ evs \<and> cancellations evs = []
      \<and> fragments evs = map (\<lambda>i. (url, position + int i * ChunkSize (f_opt (o_fs o')),
                                     min (ChunkSize (f_opt (o_fs o')))
                                         (remaining - int i * ChunkSize (f_opt (o_fs o'))), S)) [0..<m]
      \<and> (m = 0 \<or> int (m - 1) * ChunkSize (f_opt (o_fs o')) < remaining)
      \<and> (err = None \<longrightarrow> remaining \<le> int m * ChunkSize (f_opt (o_fs o')))"
proof (induction "nat remaining" arbitrary: remaining position input info0 w rule: less_induct)
  case less
  let ?C = "ChunkSize (f_opt (o_fs o'))"
  show ?case
  proof (cases "remaining > 0")
    case False
    with less.prems have "remaining = 0" by simp
    then have "uploadMultipart_loop o' url S input remaining position info0 w
          = Some ((info0, None), input, w)"
      by (subst uploadMultipart_loop.simps) simp
    then show ?thesis using \<open>remaining = 0\<close>
      by (intro exI [of _ info0] exI [of _ None] exI [of _ input] exI [of _ w] exI [of _ "[]"]
          exI [of _ 0]) simp
  next
    case True
    define n where "n = (if remaining < ?C then remaining else ?C)"
    have n: "0 < n" "n \<le> remaining" "n = min ?C remaining"
      using True C by (auto simp: n_def)
    let ?seg = "NewRepeatableReader input n"
    obtain info' eo seg' w1 where uf: "uploadFragment url position S ?seg n w = ((info', eo), seg', w1)"
      by (metis prod.exhaust)
    from uploadFragment_events [OF uf] obtain evs1 where evs1:
      "wlog w1 = wlog w @ UploadFragment url position n S # evs1"
      "fragments evs1 = []" "cancellations evs1 = []" by blast
    show ?thesis
    proof (cases eo)
      case (Some e)
      have "uploadMultipart_loop o' url S input remaining position info0 w
          = Some ((None, Some e), drop (length (rr_buf seg')) input, w1)"
        using True uf Some by (subst uploadMultipart_loop.simps) (simp add: n_def Let_def)
      moreover have "fragments (UploadFragment url position n S # evs1)
         = map (\<lambda>i. (url, position + int i * ?C, min ?C (remaining - int i * ?C), S)) [0..<1]"
        using evs1 n by simp
      ultimately show ?thesis using evs1 True
        by (intro exI [of _ None] exI [of _ "Some e"] exI [of _ "drop (length (rr_buf seg')) input"]
            exI [of _ w1] exI [of _ "UploadFragment url position n S # evs1"] exI [of _ 1]) simp
    next
      case None
      let ?input' = "drop (length (rr_buf seg')) input"
      have step: "uploadMultipart_loop o' url S input remaining position info0 w
          = uploadMultipart_loop o' url S ?input' (remaining - n) (position + n) info' w1"
        using True uf None by (subst uploadMultipart_loop.simps) (simp add: n_def Let_def)
      have "nat (remaining - n) < nat remaining" "0 \<le> remaining - n" using n by auto
      from less.hyps [OF this, of ?input' "position + n" info' w1]
      obtain info err input'' w' evs m where ih:
        "uploadMultipart_loop o' url S ?input' (remaining - n) (position + n) info' w1
           = Some ((info, err), input'', w')"
        "wlog w' = wlog w1 @ evs" "cancellations evs = []"
        "fragments evs = map (\<lambda>i. (url, position + n + int i * ?C,
                                     min ?C (remaining - n - int i * ?C), S)) [0..<m]"
        "m = 0 \<or> int (m - 1) * ?C < remaining - n"
        "err = None \<longrightarrow> remaining - n \<le> int m * ?C"
        by blast
      have shape: "fragments (UploadFragment url position n S # evs1 @ evs)
          = map (\<lambda>i. (url, position + int i * ?C, min ?C (remaining - int i * ?C), S)) [0..<Suc m]"
      proof (cases "remaining < ?C")
        case True
        then have "n = remaining" by (simp add: n_def)
        moreover have "0 \<le> int (m - 1) * ?C" using C by simp
        ultimately have "m = 0" using ih(5) by auto
        with ih(4) evs1 n show ?thesis by simp
      next
        case False
        then have nC: "n = ?C" by (simp add: n_def)
        have "map (\<lambda>i. (url, position + int i * ?C, min ?C (remaining - int i * ?C), S)) [0..<Suc m]
            = (url, position, min ?C remaining, S)
              # map (\<lambda>i. (url, position + int (Suc i) * ?C, min ?C (remaining - int (Suc i) * ?C), S)) [0..<m]"
          by (simp add: upt_conv_Cons map_Suc_upt [symmetric] del: upt_Suc)
        also have "\<dots> = (url, position, n, S)
              # map (\<lambda>i. (url, position + n + int i * ?C, min ?C (remaining - n - int i * ?C), S)) [0..<m]"
          using n nC by (simp add: algebra_simps)
        finally show ?thesis using ih(4) evs1 by simp
      qed
      have bound: "int (Suc m - 1) * ?C < remaining"
      proof (cases m)
        case 0
        then show ?thesis using True by simp
      next
        case (Suc k)
        with ih(5) have "int k * ?C < remaining - n" by simp
        moreover have "n = ?C"
        proof (rule ccontr)
          assume "n \<noteq> ?C"
          then have "n = remaining" by (simp add: n_def split: if_splits)
          moreover have "0 \<le> int k * ?C" using C by simp
          ultimately show False using \<open>int k * ?C < remaining - n\<close> by simp
        qed
        ultimately show ?thesis using Suc by (simp add: algebra_simps)
      qed
      have succ: "err = None \<longrightarrow> remaining \<le> int (Suc m) * ?C"
        using ih(6) n by (auto simp: algebra_simps)
      show ?thesis
        using step ih(1,2,3) evs1 shape bound succ
        by (intro exI [of _ info] exI [of _ err] exI [of _ input''] exI [of _ w']
            exI [of _ "UploadFragment url position n S # evs1 @ evs"] exI [of _ "Suc m"]) simp
    qed
  qed
qed

lemma logs_only_request_markers:
  "logs_only is_request w w' \<Longrightarrow>
     \<exists>evs. wlog w' = wlog w @ evs \<and> fragments evs = [] \<and> cancellations evs = []"
  unfolding logs_only_def using request_events_no_markers by blast

lemma sum_fragment_sizes:
  fixes C S :: int
  assumes "0 < C" and "m = 0 \<or> int (m - 1) * C < S" and "S \<le> int m * C" and "0 \<le> S"
  shows "(\<Sum>i<m. min C (S - int i * C)) = S"
proof (cases m)
  case 0
  with assms show ?thesis by simp
next
  case (Suc k)
  with assms have k: "int k * C < S" "S \<le> int k * C + C" by (simp_all add: algebra_simps)
  have "min C (S - int i * C) = C" if "i < k" for i
  proof -
    from that have "int i + 1 \<le> int k" by simp
    then have "(int i + 1) * C \<le> int k * C" using assms(1) by (intro mult_right_mono) auto
    with k show ?thesis by (simp add: algebra_simps)
  qed
  then have "(\<Sum>i<k. min C (S - int i * C)) = (\<Sum>i<k. C)" by (intro sum.cong) auto
  also have "\<dots> = int k * C" by simp
  finally show ?thesis using Suc k by simp
qed

lemma fragments_contiguous:
  fixes C S :: int
  assumes "0 < C" and "m = 0 \<or> int (m - 1) * C < S" and "Suc i < m"
  shows "int i * C + min C (S - int i * C) = int (Suc i) * C"
proof -
  from assms have "int (m - 1) * C < S" by auto
  moreover from assms have "int i + 1 \<le> int (m - 1)" by auto
  then have "(int i + 1) * C \<le> int (m - 1) * C" using assms(1) by (intro mult_right_mono) auto
  ultimately show ?thesis by (simp add: algebra_simps)
qed

lemma fragments_nonempty:
  fixes C S :: int
  assumes "0 < C" and "m = 0 \<or> int (m - 1) * C < S" and "i < m"
  shows "0 < min C (S - int i * C)"
proof -
  from assms have "int (m - 1) * C < S" by auto
  moreover from assms have "int i \<le> int (m - 1)" by auto
  then have "int i * C \<le> int (m - 1) * C" using assms(1) by (intro mult_right_mono) auto
  ultimately have "int i * C < S" by linarith
  then show ?thesis using assms(1) by simp
qed

text \<open>
  C4.  With a positive chunk size \<open>C\<close> and a declared size \<open>S \<ge> 0\<close>, \<open>uploadMultipart\<close>
  returns, and the fragments it uploaded are, in this order, at the positions
  \<open>0, C, 2C, \<dots>\<close>, the \<open>i\<close>-th of size \<open>min C (S - i * C)\<close> (the smaller of the chunk
  size and what remains) and of the declared total \<open>S\<close>, all in one session.  Each
  fragment is non-empty and ends where the next one starts, so no two overlap; and
  when the upload succeeds the sizes add up to \<open>S\<close>.
\<close>

theorem uploadMultipart_fragments:
  assumes "0 < ChunkSize (f_opt (o_fs o'))" and "0 \<le> S"
  shows "\<exists>info err input' w' evs url m.
      uploadMultipart o' input S modTime w = Some ((info, err), input', w')
    \<and> wlog w' = wlog w @ evs
    \<and> fragments evs = map (\<lambda>i. (url, int i * ChunkSize (f_opt (o_fs o')),
                                  min (ChunkSize (f_opt (o_fs o')))
                                      (S - int i * ChunkSize (f_opt (o_fs o'))), S)) [0..<m]
    \<and> (\<forall>i<m. 0 < min (ChunkSize (f_opt (o_fs o'))) (S - int i * ChunkSize (f_opt (o_fs o'))))
    \<and> (\<forall>i. Suc i < m \<longrightarrow>
          int i * ChunkSize (f_opt (o_fs o'))
            + min (ChunkSize (f_opt (o_fs o'))) (S - int i * ChunkSize (f_opt (o_fs o')))
          = int (Suc i) * ChunkSize (f_opt (o_fs o')))
    \<and> (err = None \<longrightarrow>
          (\<Sum>i<m. min (ChunkSize (f_opt (o_fs o'))) (S - int i * ChunkSize (f_opt (o_fs o')))) = S)"
proof -
  let ?C = "ChunkSize (f_opt (o_fs o'))"
  let ?P = "\<lambda>info err input' w' evs url m.
      uploadMultipart o' input S modTime w = Some ((info, err), input', w')
    \<and> wlog w' = wlog w @ evs
    \<and> fragments evs = map (\<lambda>i. (url, int i * ?C, min ?C (S - int i * ?C), S)) [0..<m]
    \<and> (m = 0 \<or> int (m - 1) * ?C < S)
    \<and> (err = None \<longrightarrow> S \<le> int m * ?C)"
  have "\<exists>info err input' w' evs url m. ?P info err input' w' evs url m"
  proof -
    obtain session serr w1 where cs: "createUploadSession o' modTime w = ((session, serr), w1)"
      by (metis prod.exhaust)
    from logs_only_request_markers [OF createUploadSession_logs [OF cs]] obtain evs0 where evs0:
      "wlog w1 = wlog w @ evs0" "fragments evs0 = []" "cancellations evs0 = []" by blast
    show ?thesis
    proof (cases serr)
      case (Some e)
      with cs evs0 have "?P None (Some e) input w1 evs0 [] 0"
        by (cases session) (simp_all add: uploadMultipart_def)
      then show ?thesis by blast
    next
      case None
      show ?thesis
      proof (cases session)
        case None' : None
        with cs None evs0 have "?P None (Some (GoPanic ''nil pointer dereference'')) input w1 evs0 [] 0"
          by (simp add: uploadMultipart_def)
        then show ?thesis by blast
      next
        case (Some url)
        from loop_total [OF assms(1) assms(2), of url S input 0 None w1]
        obtain info err input' w2 evs m where lp:
          "uploadMultipart_loop o' url S input S 0 None w1 = Some ((info, err), input', w2)"
          "wlog w2 = wlog w1 @ evs" "cancellations evs = []"
          "fragments evs = map (\<lambda>i. (url, int i * ?C, min ?C (S - int i * ?C), S)) [0..<m]"
          "m = 0 \<or> int (m - 1) * ?C < S" "err = None \<longrightarrow> S \<le> int m * ?C"
          by auto
        show ?thesis
        proof (cases err)
          case None'' : None
          with cs None Some lp evs0 have "?P info None input' w2 (evs0 @ evs) url m"
            by (simp add: uploadMultipart_def)
          then show ?thesis by blast
        next
          case Some' : (Some e)
          obtain cerr w3 where cu: "cancelUploadSession url w2 = (cerr, w3)" by (metis prod.exhaust)
          from cancelUploadSession_log [OF cu] obtain evs3 where evs3:
            "wlog w3 = wlog w2 @ CancelUploadSession url # evs3" "list_all is_request evs3" by blast
          note nm = request_events_no_markers [OF evs3(2)]
          show ?thesis
          proof (cases cerr)
            case None''' : None
            with cs None Some lp evs0 Some' cu evs3 nm
            have "?P info (Some e) input' w3 (evs0 @ evs @ CancelUploadSession url # evs3) url m"
              by (simp add: uploadMultipart_def)
            then show ?thesis by blast
          next
            case Some'' : (Some ce)
            with cs None Some lp evs0 Some' cu evs3 nm
            have "?P info (Some e) input'
                    (w3\<lparr>wlog := wlog w3 @ [Logf ''Failed to cancel multipart upload'']\<rparr>)
                    (evs0 @ evs @ CancelUploadSession url # evs3
                       @ [Logf ''Failed to cancel multipart upload'']) url m"
              by (simp add: uploadMultipart_def)
            then show ?thesis by blast
          qed
        qed
      qed
    qed
  qed
  then obtain info err input' w' evs url m where p: "?P info err input' w' evs url m" by blast
  have "\<forall>i<m. 0 < min ?C (S - int i * ?C)"
    using fragments_nonempty [OF assms(1), of m S] p by blast
  moreover have "\<forall>i. Suc i < m \<longrightarrow> int i * ?C + min ?C (S - int i * ?C) = int (Suc i) * ?C"
    using fragments_contiguous [OF assms(1), of m S] p by blast
  moreover have "err = None \<longrightarrow> (\<Sum>i<m. min ?C (S - int i * ?C)) = S"
    using sum_fragment_sizes [OF assms(1), of m S] p assms(2) by blast
  ultimately show ?thesis using p by blast
qed




section \<open>Runs against the example providers\<close>

lemma pacer_attempts_numeral:
  "pacer_attempts (numeral k) attempt c w =
     (case attempt c w of ((retry, err), c', w') \<Rightarrow>
        if retry then pacer_attempts (pred_numeral k) attempt c' (w'\<lparr>pacer := pacer_failure (pacer w')\<rparr>)
        else (err, c', pacer_settle retry err w'))"
  by (simp add: numeral_eq_Suc)

lemma pacer_budget [simp]:
  "retryBudget (pacer_success p) = retryBudget p" "retryBudget (pacer_failure p) = retryBudget p"
  by (simp_all add: pacer_success_def pacer_failure_def)

lemma loop_done:
  "\<not> remaining > 0 \<Longrightarrow>
     uploadMultipart_loop o' url S input remaining position info w = Some ((info, None), input, w)"
  by (subst uploadMultipart_loop.simps) simp

lemma loop_step:
  "remaining > 0 \<Longrightarrow>
     uploadMultipart_loop o' url S input remaining position info w =
       (let n = ChunkSize (f_opt (o_fs o'));
            n = (if remaining < n then remaining else n);
            seg = NewRepeatableReader input n
        in case uploadFragment url position S seg n w of
             ((info', Some e), seg', w1) \<Rightarrow>
               Some ((None, Some e), drop (length (rr_buf seg')) input, w1)
           | ((info', None), seg', w1) \<Rightarrow>
               uploadMultipart_loop o' url S (drop (length (rr_buf seg')) input)
                 (remaining - n) (position + n) info' w1)"
  by (subst uploadMultipart_loop.simps) simp

lemmas eval_upload = uploadFragment_def pacer_Call_def uploadFragment_attempt_def srv_Call_body_def
  rr_Read_def rr_SeekStart_def NewRepeatableReader_def world_of_def reply_def result0_def
  onedrive_shouldRetry_def expired_token_401_def ShouldRetryHTTP_def retryErrorCodes_def
  pacer_settle_def Let_def Opts0_def fragment_opts_def pacer_attempts_numeral
  uploadMultipart_def createUploadSession_def FindPath_def FindDir_def
  SplitPath_def segments_def parseDirID_def onedrive_srvPath_def rootSlash_def
  demo_object_def demo_fs_def session_reply_def onedrive_call_def srv_CallJSON_def
  cancelUploadSession_def dircache_New_def Body0_def Item0_def loop_done loop_step


lemma demo_failing_upload:
  "map_option (\<lambda>r. (fst r, fragments (wlog (snd (snd r))), cancellations (wlog (snd (snd r))),
                      last (wlog (snd (snd r)))))
     (uploadMultipart demo_object ''abc'' 700000 0 (world_of failing_provider 3))
   = Some ((None, Some (ApiError 400 '''')),
           [(''u'', 0, 327680, 700000), (''u'', 327680, 327680, 700000)], [''u''],
           Logf ''Failed to cancel multipart upload'')"
  by (simp add: eval_upload failing_provider_def)

lemma demo_succeeding_upload:
  "map_option (\<lambda>r. (snd (fst r), fragments (wlog (snd (snd r))), cancellations (wlog (snd (snd r)))))
     (uploadMultipart demo_object ''abc'' 700000 0 (world_of succeeding_provider 3))
   = Some (None,
           [(''u'', 0, 327680, 700000), (''u'', 327680, 327680, 700000), (''u'', 655360, 44640, 700000)],
           [])"
  by (simp add: eval_upload succeeding_provider_def)

lemma demo_retried_fragment:
  "(\<lambda>r. (snd (fst r), wlog (snd (snd r))))
     (uploadFragment ''u'' 0 4 (NewRepeatableReader ''abcdef'' 4) 4 (world_of retrying_provider 3))
   = (None, [UploadFragment ''u'' 0 4 4,
             SeekStart, Request (fragment_opts ''u'' 0 4 4) [] ''ab'',
             SeekStart, Request (fragment_opts ''u'' 0 4 4) [] ''abcd''])"
  by (simp add: eval_upload retrying_provider_def)

theorem uploadFragment_seeks_before_each_request_witness:
  "\<exists>info err chunk' w'.
      uploadFragment ''u'' 0 4 (NewRepeatableReader ''abcdef'' 4) 4 (world_of retrying_provider 3)
        = ((info, err), chunk', w')
    \<and> wlog w' = [UploadFragment ''u'' 0 4 4,
                  SeekStart, Request (fragment_opts ''u'' 0 4 4) [] ''ab'',
                  SeekStart, Request (fragment_opts ''u'' 0 4 4) [] ''abcd'']
    \<and> (\<exists>m>0. wlog w' = wlog (world_of retrying_provider 3) @ UploadFragment ''u'' 0 4 4
            # concat (map (\<lambda>j. [SeekStart,
                 Request (fragment_opts ''u'' 0 4 4) []
                   (take (hread (serve (world_of retrying_provider 3)
                                   (ncalls (world_of retrying_provider 3) + j)
                                   (fragment_opts ''u'' 0 4 4)))
                      (rr_buf (NewRepeatableReader ''abcdef'' 4)
                         @ rr_in (NewRepeatableReader ''abcdef'' 4)))]) [0..<m]))"
proof -
  let ?w = "world_of retrying_provider 3"
  let ?r = "uploadFragment ''u'' 0 4 (NewRepeatableReader ''abcdef'' 4) 4 ?w"
  obtain info err chunk' w' where h: "?r = ((info, err), chunk', w')"
    by (metis prod.exhaust)
  note concl = uploadFragment_seeks_before_each_request [OF h]
  have "wlog w' = [UploadFragment ''u'' 0 4 4,
                  SeekStart, Request (fragment_opts ''u'' 0 4 4) [] ''ab'',
                  SeekStart, Request (fragment_opts ''u'' 0 4 4) [] ''abcd'']"
    using demo_retried_fragment h by simp
  with h concl show ?thesis by blast
qed

theorem uploadMultipart_fragments_witness:
  "0 < ChunkSize (f_opt (o_fs demo_object)) \<and> (0::int) \<le> 700000
   \<and> (\<exists>info err input' w' evs url m.
      uploadMultipart demo_object ''abc'' 700000 0 (world_of succeeding_provider 3)
        = Some ((info, err), input', w')
    \<and> wlog w' = wlog (world_of succeeding_provider 3) @ evs
    \<and> fragments evs = map (\<lambda>i. (url, int i * ChunkSize (f_opt (o_fs demo_object)),
                                  min (ChunkSize (f_opt (o_fs demo_object)))
                                      (700000 - int i * ChunkSize (f_opt (o_fs demo_object))),
                                  700000)) [0..<m]
    \<and> (\<forall>i<m. 0 < min (ChunkSize (f_opt (o_fs demo_object)))
                       (700000 - int i * ChunkSize (f_opt (o_fs demo_object))))
    \<and> (\<forall>i. Suc i < m \<longrightarrow>
          int i * ChunkSize (f_opt (o_fs demo_object))
            + min (ChunkSize (f_opt (o_fs demo_object)))
                  (700000 - int i * ChunkSize (f_opt (o_fs demo_object)))
          = int (Suc i) * ChunkSize (f_opt (o_fs demo_object)))
    \<and> (err = None \<longrightarrow>
          (\<Sum>i<m. min (ChunkSize (f_opt (o_fs demo_object)))
                      (700000 - int i * ChunkSize (f_opt (o_fs demo_object)))) = 700000))
   \<and> map_option (\<lambda>r. (snd (fst r), fragments (wlog (snd (snd r)))))
        (uploadMultipart demo_object ''abc'' 700000 0 (world_of succeeding_provider 3))
      = Some (None, [(''u'', 0, 327680, 700000), (''u'', 327680, 327680, 700000),
                     (''u'', 655360, 44640, 700000)])"
proof -
  have c: "0 < ChunkSize (f_opt (o_fs demo_object))"
    by (simp add: demo_object_def demo_fs_def)
  have s: "(0::int) \<le> 700000" by simp
  note concl = uploadMultipart_fragments
                 [OF c s, of "''abc''" 0 "world_of succeeding_provider 3"]
  have "map_option (\<lambda>r. (snd (fst r), fragments (wlog (snd (snd r)))))
        (uploadMultipart demo_object ''abc'' 700000 0 (world_of succeeding_provider 3))
      = Some (None, [(''u'', 0, 327680, 700000), (''u'', 327680, 327680, 700000),
                     (''u'', 655360, 44640, 700000)])"
    using demo_succeeding_upload by (auto simp: map_option_case split: option.splits)
  with c s concl show ?thesis by blast
qed



section \<open>Properties of \<open>NewFs\<close>\<close>

lemma go_rem_eq_0_iff: "go_rem a b = 0 \<longleftrightarrow> b dvd a"
proof -
  have "go_rem a b = 0 \<longleftrightarrow> a = 0 \<or> \<bar>a\<bar> mod \<bar>b\<bar> = 0"
    by (auto simp: go_rem_def sgn_if)
  also have "\<dots> \<longleftrightarrow> a = 0 \<or> \<bar>b\<bar> dvd \<bar>a\<bar>"
    by (simp add: dvd_eq_mod_eq_0)
  also have "\<dots> \<longleftrightarrow> b dvd a" by auto
  finally show ?thesis .
qed

text \<open>
  C2.  When the configured chunk size is not a multiple of 320 KiB, onedrive's \<open>NewFs\<close>
  returns the error with no \<open>Fs\<close> and leaves the world as it was: no request has been
  made and nothing has been logged.  When it is a multiple, \<open>NewFs\<close> goes on: it stops
  the process for a missing drive id or type, and is the rest of the construction
  otherwise.
\<close>

theorem chunk_size_validation:
  "(\<not> 320 * 1024 dvd ChunkSize opt \<longrightarrow>
      onedrive_NewFs name rootArg (Inr opt) oauth w
        = (Return (None, Some (Errorf ''chunk size is not a multiple of 320k'')), w))
   \<and> (320 * 1024 dvd ChunkSize opt \<longrightarrow>
      onedrive_NewFs name rootArg (Inr opt) oauth w
        = (if DriveID opt = '''' \<or> DriveType opt = '''' then (LogFatal, w)
           else onedrive_NewFs_connect name rootArg opt oauth w))"
  using go_rem_eq_0_iff [of "ChunkSize opt" "320 * 1024"]
  by (simp add: onedrive_NewFs_def)

theorem chunk_size_validation_witness:
  "\<not> 320 * 1024 dvd (1000::int) \<and> 320 * 1024 dvd (10485760::int)
   \<and> onedrive_NewFs ''remote'' ''a/b'' (Inr \<lparr>ChunkSize = 1000, DriveID = ''drive'',
          DriveType = ''personal''\<rparr>) None (world_of failing_provider 3)
        = (Return (None, Some (Errorf ''chunk size is not a multiple of 320k'')),
           world_of failing_provider 3)
   \<and> onedrive_NewFs ''remote'' ''a/b'' (Inr \<lparr>ChunkSize = 10485760, DriveID = ''drive'',
          DriveType = ''personal''\<rparr>) None (world_of failing_provider 3)
        = onedrive_NewFs_connect ''remote'' ''a/b'' \<lparr>ChunkSize = 10485760, DriveID = ''drive'',
          DriveType = ''personal''\<rparr> None (world_of failing_provider 3)"
proof -
  have a: "\<not> 320 * 1024 dvd (1000::int)" by presburger
  have b: "320 * 1024 dvd (10485760::int)" by presburger
  show ?thesis
    using a b
      chunk_size_validation [of "\<lparr>ChunkSize = 1000, DriveID = ''drive'', DriveType = ''personal''\<rparr>"
        "''remote''" "''a/b''" None "world_of failing_provider 3"]
      chunk_size_validation [of "\<lparr>ChunkSize = 10485760, DriveID = ''drive'', DriveType = ''personal''\<rparr>"
        "''remote''" "''a/b''" None "world_of failing_provider 3"]
    by simp
qed

section \<open>Properties of the directory cache\<close>

lemma map_of_filter_fst:
  "map_of (filter (\<lambda>(p, j). Q p) xs) k = (if Q k then map_of xs k else None)"
  by (induction xs) auto

lemma flushed_FlushDir: "flushed a dir w1 (upd_cache a (dc_FlushDir dir) w1)"
proof -
  have inv: "\<not> lies_under dir p"
    if "map_of (map (\<lambda>(p, j). (j, p)) (filter (\<lambda>(p, j). \<not> lies_under dir p) xs)) i = Some p"
    for xs i p
  proof -
    from that have "(i, p) \<in> set (map (\<lambda>(p, j). (j, p)) (filter (\<lambda>(p, j). \<not> lies_under dir p) xs))"
      by (rule map_of_SomeD)
    then show ?thesis by auto
  qed
  show ?thesis
    unfolding flushed_def upd_cache_def dc_FlushDir_def dc_Get_def dc_GetInv_def
    by (auto simp: map_of_filter_fst dest: inv)
qed

text \<open>
  C9.  When \<open>purgeCheck\<close> (and so \<open>Rmdir\<close> and \<open>Purge\<close>) or \<open>DirMove\<close> of either backend
  succeeds, the provider has confirmed the deletion or the move in some world \<open>w1\<close>, and
  the world returned is \<open>w1\<close> with the source's cache flushed of the subtree: every entry
  whose path lies under the deleted or moved directory is gone, and every entry whose
  path lies outside is as it was in \<open>w1\<close>.
\<close>

theorem cache_flushed_after_move_or_delete:
  "(pcloud_purgeCheck f dir check w = (None, w') \<longrightarrow>
      (\<exists>w1. pcloud_purgeCheck_delete f dir check w = (None, w1)
            \<and> flushed (f_dirCache f) dir w1 w'))
   \<and> (onedrive_purgeCheck f dir check w = (None, w') \<longrightarrow>
      (\<exists>w1. onedrive_purgeCheck_delete f dir check w = (None, w1)
            \<and> flushed (f_dirCache f) dir w1 w'))
   \<and> (pcloud_DirMove f srcFs srcRemote dstRemote w = (None, w') \<longrightarrow>
      (\<exists>w1. pcloud_DirMove_rename f srcFs srcRemote dstRemote w = (None, w1)
            \<and> flushed (f_dirCache srcFs) srcRemote w1 w'))
   \<and> (onedrive_DirMove f srcFs srcRemote dstRemote w = (None, w') \<longrightarrow>
      (\<exists>w1. onedrive_DirMove_patch f srcFs srcRemote dstRemote w = (None, w1)
            \<and> flushed (f_dirCache srcFs) srcRemote w1 w'))"
  by (auto simp: pcloud_purgeCheck_def onedrive_purgeCheck_def pcloud_DirMove_def
      onedrive_DirMove_def flushed_FlushDir split: prod.splits option.splits)

lemmas eval_dirs = pcloud_purgeCheck_def pcloud_purgeCheck_delete_def onedrive_purgeCheck_def
  onedrive_purgeCheck_delete_def pcloud_DirMove_def pcloud_DirMove_rename_def onedrive_DirMove_def
  onedrive_DirMove_patch_def onedrive_deleteObject_def
  FindRoot_def FindDir_def FindPath_def SplitPath_def segments_def dc_Get_def dc_GetInv_def
  dc_FoundRoot_def join_path_def upd_cache_def dc_FlushDir_def dc_Put_def lies_under_def
  pacer_Call_def pacer_attempts_numeral pacer_settle_def
  pcloud_call_def onedrive_call_def srv_Call_def srv_CallJSON_def
  pcloud_shouldRetry_def onedrive_shouldRetry_def expired_token_401_def ShouldRetryHTTP_def
  retryErrorCodes_def go_quot_def
  pcloud_FindLeaf_def pcloud_listAll_def pcloud_CreateDir_def dirIDtoNumber_def
  onedrive_FindLeaf_def onedrive_readMetaDataForPath_def onedrive_CreateDir_def
  decoded_item_def rootSlash_def newOptsCall_def parseDirID_def
  cached_world_def world_of_def ok_provider_def folder_provider_def missing_then_ok_provider_def
  reply_def result0_def Body0_def Item0_def Opts0_def demo_fs_def Let_def

lemma demo_pcloud_purge:
  "(\<lambda>r. (fst r, cached (caches (snd r) 0)))
     (pcloud_purgeCheck demo_fs ''a'' True (cached_world ok_provider))
   = (None, [('''', ''d0''), (''ab'', ''d3'')])"
  by (simp add: eval_dirs)

lemma demo_onedrive_purge:
  "(\<lambda>r. (fst r, cached (caches (snd r) 0)))
     (onedrive_purgeCheck demo_fs ''a'' True (cached_world folder_provider))
   = (None, [('''', ''d0''), (''ab'', ''d3'')])"
  by (simp add: eval_dirs)

lemma demo_pcloud_DirMove:
  "(\<lambda>r. (fst r, cached (caches (snd r) 0)))
     (pcloud_DirMove demo_fs demo_fs ''a'' ''c'' (cached_world ok_provider))
   = (None, [('''', ''d0''), (''ab'', ''d3'')])"
  by (simp add: eval_dirs)

lemma demo_onedrive_DirMove:
  "(\<lambda>r. (fst r, cached (caches (snd r) 0)))
     (onedrive_DirMove demo_fs demo_fs ''a'' ''c'' (cached_world missing_then_ok_provider))
   = (None, [('''', ''d0''), (''ab'', ''d3'')])"
  by (simp add: eval_dirs)

theorem cache_flushed_after_move_or_delete_witness:
  "(\<exists>w'. pcloud_purgeCheck demo_fs ''a'' True (cached_world ok_provider) = (None, w')
        \<and> cached (caches w' 0) = [('''', ''d0''), (''ab'', ''d3'')]
        \<and> (\<exists>w1. pcloud_purgeCheck_delete demo_fs ''a'' True (cached_world ok_provider) = (None, w1)
              \<and> flushed (f_dirCache demo_fs) ''a'' w1 w'))
   \<and> (\<exists>w'. onedrive_purgeCheck demo_fs ''a'' True (cached_world folder_provider) = (None, w')
        \<and> cached (caches w' 0) = [('''', ''d0''), (''ab'', ''d3'')]
        \<and> (\<exists>w1. onedrive_purgeCheck_delete demo_fs ''a'' True (cached_world folder_provider) = (None, w1)
              \<and> flushed (f_dirCache demo_fs) ''a'' w1 w'))
   \<and> (\<exists>w'. pcloud_DirMove demo_fs demo_fs ''a'' ''c'' (cached_world ok_provider) = (None, w')
        \<and> cached (caches w' 0) = [('''', ''d0''), (''ab'', ''d3'')]
        \<and> (\<exists>w1. pcloud_DirMove_rename demo_fs demo_fs ''a'' ''c'' (cached_world ok_provider) = (None, w1)
              \<and> flushed (f_dirCache demo_fs) ''a'' w1 w'))
   \<and> (\<exists>w'. onedrive_DirMove demo_fs demo_fs ''a'' ''c'' (cached_world missing_then_ok_provider) = (None, w')
        \<and> cached (caches w' 0) = [('''', ''d0''), (''ab'', ''d3'')]
        \<and> (\<exists>w1. onedrive_DirMove_patch demo_fs demo_fs ''a'' ''c'' (cached_world missing_then_ok_provider)
                    = (None, w1)
              \<and> flushed (f_dirCache demo_fs) ''a'' w1 w'))"
proof -
  obtain wa where a: "pcloud_purgeCheck demo_fs ''a'' True (cached_world ok_provider) = (None, wa)"
    "cached (caches wa 0) = [('''', ''d0''), (''ab'', ''d3'')]"
    using demo_pcloud_purge
    by (cases "pcloud_purgeCheck demo_fs ''a'' True (cached_world ok_provider)") auto
  obtain wb where b: "onedrive_purgeCheck demo_fs ''a'' True (cached_world folder_provider) = (None, wb)"
    "cached (caches wb 0) = [('''', ''d0''), (''ab'', ''d3'')]"
    using demo_onedrive_purge
    by (cases "onedrive_purgeCheck demo_fs ''a'' True (cached_world folder_provider)") auto
  obtain wc where c: "pcloud_DirMove demo_fs demo_fs ''a'' ''c'' (cached_world ok_provider) = (None, wc)"
    "cached (caches wc 0) = [('''', ''d0''), (''ab'', ''d3'')]"
    using demo_pcloud_DirMove
    by (cases "pcloud_DirMove demo_fs demo_fs ''a'' ''c'' (cached_world ok_provider)") auto
  obtain wd where d: "onedrive_DirMove demo_fs demo_fs ''a'' ''c'' (cached_world missing_then_ok_provider) = (None, wd)"
    "cached (caches wd 0) = [('''', ''d0''), (''ab'', ''d3'')]"
    using demo_onedrive_DirMove
    by (cases "onedrive_DirMove demo_fs demo_fs ''a'' ''c'' (cached_world missing_then_ok_provider)") auto
  from a cache_flushed_after_move_or_delete
         [of demo_fs "''a''" True "cached_world ok_provider" wa]
  have ra: "\<exists>w1. pcloud_purgeCheck_delete demo_fs ''a'' True (cached_world ok_provider) = (None, w1)
              \<and> flushed (f_dirCache demo_fs) ''a'' w1 wa" by blast
  from b cache_flushed_after_move_or_delete
         [of demo_fs "''a''" True "cached_world folder_provider" wb]
  have rb: "\<exists>w1. onedrive_purgeCheck_delete demo_fs ''a'' True (cached_world folder_provider) = (None, w1)
              \<and> flushed (f_dirCache demo_fs) ''a'' w1 wb" by blast
  from c cache_flushed_after_move_or_delete
         [of demo_fs "''a''" True "cached_world ok_provider" wc demo_fs "''a''" "''c''"]
  have rc: "\<exists>w1. pcloud_DirMove_rename demo_fs demo_fs ''a'' ''c'' (cached_world ok_provider) = (None, w1)
              \<and> flushed (f_dirCache demo_fs) ''a'' w1 wc" by blast
  from d cache_flushed_after_move_or_delete
         [of demo_fs "''a''" True "cached_world missing_then_ok_provider" wd demo_fs "''a''" "''c''"]
  have rd: "\<exists>w1. onedrive_DirMove_patch demo_fs demo_fs ''a'' ''c'' (cached_world missing_then_ok_provider)
                    = (None, w1)
              \<and> flushed (f_dirCache demo_fs) ''a'' w1 wd" by blast
  from a b c d ra rb rc rd show ?thesis by blast
qed

section \<open>Properties of the pcloud upload\<close>

lemma pcloud_call_logs:
  "Path opts \<noteq> ''/uploadfile'' \<Longrightarrow> pcloud_call opts c w = (r, c', w')
     \<Longrightarrow> logs_only not_upload w w'"
  by (auto simp: pcloud_call_def srv_Call_def srv_CallJSON_def logs_only_def not_upload_def
      is_upload_def)

lemma pacer_Call_pcloud_logs:
  assumes path: "Path opts \<noteq> ''/uploadfile''"
    and call: "pacer_Call (pcloud_call opts) c w = (err, c', w')"
  shows "logs_only not_upload w w'"
  using call unfolding pacer_Call_def
proof (rule pacer_attempts_rel [rotated -1])
  fix c w r c' w'
  assume "pcloud_call opts c w = (r, c', w')"
  with path show "logs_only not_upload w w'" by (rule pcloud_call_logs)
next
  fix w w1 w2
  assume "logs_only not_upload w w1" "logs_only not_upload w1 w2"
  then show "logs_only not_upload w w2" by (rule logs_only_trans)
next
  fix w w' p
  assume "logs_only not_upload w w'"
  then show "logs_only not_upload w (w'\<lparr>pacer := p\<rparr>)" by simp
qed

lemma pcloud_listAll_items_rel:
  assumes fn: "\<And>it c w r c' w'. fn it c w = (r, c', w') \<Longrightarrow> R w w'"
    and refl: "\<And>w. R w w"
    and trans: "\<And>w w1 w2. R w w1 \<Longrightarrow> R w1 w2 \<Longrightarrow> R w w2"
  shows "pcloud_listAll_items dO fO fn items c w = (found, c', w') \<Longrightarrow> R w w'"
proof (induction items arbitrary: c w)
  case Nil
  then show ?case by (simp add: refl)
next
  case (Cons it items)
  show ?case
  proof (cases "(IsFolder it \<and> fO) \<or> (\<not> IsFolder it \<and> dO)")
    case True
    with Cons.prems have "pcloud_listAll_items dO fO fn items c w = (found, c', w')"
      by (auto split: if_splits)
    then show ?thesis by (rule Cons.IH)
  next
    case False
    obtain b c1 w1 where f: "fn (it\<lparr>Name := restoreReservedChars (Name it)\<rparr>) c w = (b, c1, w1)"
      by (metis prod.exhaust)
    have r1: "R w w1" using fn [OF f] .
    show ?thesis
    proof (cases b)
      case True
      with Cons.prems False f have "w' = w1" by auto
      with r1 show ?thesis by simp
    next
      case False': False
      with Cons.prems False f have "pcloud_listAll_items dO fO fn items c1 w1 = (found, c', w')"
        by auto
      from Cons.IH [OF this] r1 show ?thesis by (blast intro: trans)
    qed
  qed
qed

lemma pcloud_listAll_rel:
  assumes fn: "\<And>it c w r c' w'. fn it c w = (r, c', w') \<Longrightarrow> logs_only not_upload w w'"
  shows "pcloud_listAll dirID dO fO fn c w = (r, c', w') \<Longrightarrow> logs_only not_upload w w'"
proof -
  assume a: "pcloud_listAll dirID dO fO fn c w = (r, c', w')"
  let ?opts = "Opts0\<lparr>Method := ''GET'', Path := ''/listfolder'',
                        Parameters := [(''folderid'', dirIDtoNumber dirID)]\<rparr>"
  obtain err result w1 where p: "pacer_Call (pcloud_call ?opts) result0 w = (err, result, w1)"
    by (metis prod.exhaust)
  have r1: "logs_only not_upload w w1"
    by (rule pacer_Call_pcloud_logs [OF _ p]) simp
  show ?thesis
  proof (cases err)
    case (Some e)
    with a p have "w' = w1" by (simp add: pcloud_listAll_def)
    with r1 show ?thesis by simp
  next
    case None
    obtain found c2 w2 where
      l: "pcloud_listAll_items dO fO fn (bContents (hbody result)) c w1 = (found, c2, w2)"
      by (metis prod.exhaust)
    with a p None have "w' = w2" by (simp add: pcloud_listAll_def)
    moreover have "logs_only not_upload w1 w2"
      using l
    proof (rule pcloud_listAll_items_rel [rotated -1])
      fix it c w r c' w'
      assume "fn it c w = (r, c', w')"
      then show "logs_only not_upload w w'" by (rule fn)
    next
      fix w show "logs_only not_upload w w" by simp
    next
      fix w w1 w2
      assume "logs_only not_upload w w1" "logs_only not_upload w1 w2"
      then show "logs_only not_upload w w2" by (rule logs_only_trans)
    qed
    ultimately show ?thesis using r1 by (blast intro: logs_only_trans)
  qed
qed

lemma pcloud_FindLeaf_logs:
  assumes a: "pcloud_FindLeaf pathID leaf w = (r, w')"
  shows "logs_only not_upload w w'"
proof -
  define fn :: "Item \<Rightarrow> string \<Rightarrow> world \<Rightarrow> bool \<times> string \<times> world"
    where "fn = (\<lambda>item pathIDOut w. if Name item = leaf then (True, ID item, w)
                                  else (False, pathIDOut, w))"
  have step: "logs_only not_upload v v'" if "fn it c v = (b, c', v')" for it c v b c' v'
  proof -
    from that have "v' = v" by (cases "Name it = leaf") (simp_all add: fn_def)
    then show ?thesis by simp
  qed
  obtain found e c w1 where l: "pcloud_listAll pathID True False fn '''' w = ((found, e), c, w1)"
    by (metis prod.exhaust)
  have r1: "logs_only not_upload w w1"
    using l by (rule pcloud_listAll_rel [rotated]) (rule step)
  have "w' = w1"
  proof (cases e)
    case None
    with a l show ?thesis
      by (cases found) (simp_all add: pcloud_FindLeaf_def fn_def [symmetric])
  next
    case (Some x)
    with a l show ?thesis by (simp add: pcloud_FindLeaf_def fn_def [symmetric])
  qed
  with r1 show ?thesis by simp
qed

lemma pcloud_CreateDir_logs:
  assumes "pcloud_CreateDir pathID leaf w = (r, w')"
  shows "logs_only not_upload w w'"
proof -
  let ?opts = "Opts0\<lparr>Method := ''POST'', Path := ''/createfolder'',
                        Parameters := [(''name'', replaceReservedChars leaf),
                                       (''folderid'', dirIDtoNumber pathID)]\<rparr>"
  obtain err result w1 where p: "pacer_Call (pcloud_call ?opts) result0 w = (err, result, w1)"
    by (metis prod.exhaust)
  have r1: "logs_only not_upload w w1"
    by (rule pacer_Call_pcloud_logs [OF _ p]) simp
  from assms p have "w' = w1"
    by (cases err) (simp_all add: pcloud_CreateDir_def)
  with r1 show ?thesis by simp
qed

lemma pcloud_dc_walk_logs:
  assumes "dc_walk pcloud_FindLeaf pcloud_CreateDir a create pre pid segs w = (r, w')"
  shows "logs_only not_upload w w'"
  using assms
proof (rule dc_walk_rel [rotated -1])
  fix pid seg w r w'
  assume "pcloud_FindLeaf pid seg w = (r, w')"
  then show "logs_only not_upload w w'" by (rule pcloud_FindLeaf_logs)
next
  fix pid seg w r w'
  assume "pcloud_CreateDir pid seg w = (r, w')"
  then show "logs_only not_upload w w'" by (rule pcloud_CreateDir_logs)
next
  fix w show "logs_only not_upload w w" by simp
next
  fix w w1 w2
  assume "logs_only not_upload w w1" "logs_only not_upload w1 w2"
  then show "logs_only not_upload w w2" by (rule logs_only_trans)
next
  fix w w' a g
  assume "logs_only not_upload w w'"
  then show "logs_only not_upload w (upd_cache a g w')" by simp
qed

lemma logs_only_upd_cache_left [simp]: "logs_only P (upd_cache a g w) w' = logs_only P w w'"
  by (simp add: logs_only_def upd_cache_def)

lemma pcloud_FindRoot_logs:
  assumes "FindRoot pcloud_FindLeaf pcloud_CreateDir a create w = (r, w')"
  shows "logs_only not_upload w w'"
proof (cases "rootState (caches w a) \<noteq> Unresolved")
  case True
  with assms show ?thesis by (simp add: FindRoot_def)
next
  case False
  let ?w0 = "upd_cache a (dc_Put '''' (trueRootID (caches w a))) w"
  obtain x w1 where
    wk: "dc_walk pcloud_FindLeaf pcloud_CreateDir a create '''' (trueRootID (caches w a))
           (segments (dcRoot (caches w a))) ?w0 = (x, w1)"
    by (metis prod.exhaust)
  from pcloud_dc_walk_logs [OF wk] have r1: "logs_only not_upload w w1" by simp
  show ?thesis
  proof (cases x)
    case (Inl e)
    with assms False wk have "w' = w1" by (simp add: FindRoot_def Let_def)
    with r1 show ?thesis by simp
  next
    case (Inr i)
    with assms False wk
    have "w' = upd_cache a (\<lambda>dc. dc\<lparr>rootID := i, rootState := ResolvedAsDirectory,
                                           cached := [('''', i)]\<rparr>) w1"
      by (simp add: FindRoot_def Let_def)
    with r1 show ?thesis by simp
  qed
qed

lemma pcloud_FindRootAndPath_logs:
  assumes "FindRootAndPath pcloud_FindLeaf pcloud_CreateDir a path create w = (r, w')"
  shows "logs_only not_upload w w'"
proof -
  obtain e w1 where fr: "FindRoot pcloud_FindLeaf pcloud_CreateDir a create w = (e, w1)"
    by (metis prod.exhaust)
  note r1 = pcloud_FindRoot_logs [OF fr]
  show ?thesis
  proof (cases e)
    case (Some x)
    with assms fr have "w' = w1" by (simp add: FindRootAndPath_def)
    with r1 show ?thesis by simp
  next
    case None
    obtain directory leaf where sp: "SplitPath path = (directory, leaf)" by (metis prod.exhaust)
    obtain x w2 where
      wk: "dc_walk pcloud_FindLeaf pcloud_CreateDir a create '''' (rootID (caches w1 a))
             (segments directory) w1 = (x, w2)"
      by (metis prod.exhaust)
    from assms fr None sp wk have "w' = w2"
      by (simp add: FindRootAndPath_def FindPath_def FindDir_def)
    with r1 pcloud_dc_walk_logs [OF wk] show ?thesis by (blast intro: logs_only_trans)
  qed
qed

lemma pcloud_Update_prepare_logs:
  assumes "pcloud_Update_prepare o' input size' modTime w = (r, w')"
  shows "logs_only not_upload w w'"
proof -
  obtain leaf x w1 where
    f: "FindRootAndPath pcloud_FindLeaf pcloud_CreateDir (f_dirCache (o_fs o')) (o_remote o')
          True w = ((leaf, x), w1)"
    by (metis prod.exhaust)
  have "w' = w1"
    using assms f
    by (cases x; cases "size' = 0")
       (auto simp: pcloud_Update_prepare_def Let_def split: sum.splits)
  with pcloud_FindRootAndPath_logs [OF f] show ?thesis by simp
qed

lemma pcloud_Update_prepare_Path:
  assumes "pcloud_Update_prepare o' input size' modTime w = (Inr (opts, body, unsent), w')"
  shows "Path opts = ''/uploadfile''"
proof -
  obtain leaf x w1 where
    f: "FindRootAndPath pcloud_FindLeaf pcloud_CreateDir (f_dirCache (o_fs o')) (o_remote o')
          True w = ((leaf, x), w1)"
    by (metis prod.exhaust)
  show ?thesis
    using assms f
    by (cases x; cases "size' = 0")
       (auto simp: pcloud_Update_prepare_def Let_def Opts0_def split: sum.splits)
qed

lemma pcloud_upload_once:
  assumes "pacer_CallNoRetry (pcloud_upload_attempt opts) (body, result) w = (err, c', w')"
  shows "\<exists>sent. wlog w' = wlog w @ [Request opts [] sent]"
    and "ncalls w' = Suc (ncalls w)"
    and "err = herr (serve w (ncalls w) opts)"
proof -
  let ?r = "serve w (ncalls w) opts"
  let ?w1 = "w\<lparr>ncalls := Suc (ncalls w),
               wlog := wlog w @ [Request opts [] (take (hread ?r) body)]\<rparr>"
  obtain retry where sr:
    "pcloud_shouldRetry (fserrors_ShouldRetry w) (hresp ?r) (herr ?r) = (retry, herr ?r)"
    by (simp add: pcloud_shouldRetry_def Let_def)
  then have "pcloud_upload_attempt opts (body, result) w
               = ((retry, herr ?r), (drop (hread ?r) body, ?r), ?w1)"
    by (simp add: pcloud_upload_attempt_def Let_def)
  with assms have r: "w' = pacer_settle retry (herr ?r) ?w1" "err = herr ?r"
    by (auto simp: pacer_CallNoRetry_def)
  from r(1) have "wlog w' = wlog w @ [Request opts [] (take (hread ?r) body)]"
    by (simp add: pacer_settle_def)
  then show "\<exists>sent. wlog w' = wlog w @ [Request opts [] sent]" by blast
  from r(1) show "ncalls w' = Suc (ncalls w)" by (simp add: pacer_settle_def)
  from r(2) show "err = herr (serve w (ncalls w) opts)" .
qed

lemma not_upload_filter: "list_all not_upload evs \<Longrightarrow> filter is_upload evs = []"
  by (induction evs) (auto simp: not_upload_def)

text \<open>
  C8.  Whatever \<open>Update\<close> returns and whatever the provider answers, retryable or not:
  when the preparation of the request fails, the run holds no upload request; when it
  succeeds, the run ends with the one upload request of the run, the one prepared, the
  provider has been called exactly once since the preparation, and an error of that one
  call is what \<open>Update\<close> returns.
\<close>

theorem pcloud_upload_attempted_once:
  assumes "pcloud_Update o' input size' modTime w = (r, input', w')"
  shows "\<exists>evs. wlog w' = wlog w @ evs
      \<and> (case pcloud_Update_prepare o' input size' modTime w of
            (Inl e, w1) \<Rightarrow> filter is_upload evs = []
          | (Inr (opts, body, unsent), w1) \<Rightarrow>
              Path opts = ''/uploadfile''
            \<and> (\<exists>sent. filter is_upload evs = [Request opts [] sent]
                    \<and> wlog w' = wlog w1 @ [Request opts [] sent])
            \<and> ncalls w' = Suc (ncalls w1)
            \<and> (\<forall>e. herr (serve w1 (ncalls w1) opts) = Some e \<longrightarrow> fst r = Some e))"
proof -
  obtain p w1 where prep: "pcloud_Update_prepare o' input size' modTime w = (p, w1)"
    by (metis prod.exhaust)
  from pcloud_Update_prepare_logs [OF prep] obtain evs1 where evs1:
    "wlog w1 = wlog w @ evs1" "list_all not_upload evs1"
    by (auto simp: logs_only_def)
  show ?thesis
  proof (cases p)
    case (Inl e)
    with assms prep have "w' = w1" by (simp add: pcloud_Update_def)
    with evs1 prep Inl show ?thesis by (auto simp: not_upload_filter)
  next
    case (Inr x)
    obtain opts body unsent where x: "x = (opts, body, unsent)" by (cases x)
    note path = pcloud_Update_prepare_Path [OF prep [unfolded Inr x]]
    obtain err c2 w2 where call:
      "pacer_CallNoRetry (pcloud_upload_attempt opts) (body, result0) w1 = (err, c2, w2)"
      by (metis prod.exhaust)
    from pcloud_upload_once(1) [OF call] obtain sent where
      sent: "wlog w2 = wlog w1 @ [Request opts [] sent]" by blast
    note calls = pcloud_upload_once(2) [OF call]
    note err = pcloud_upload_once(3) [OF call]
    from assms prep Inr x call have w': "w' = w2"
      by (auto simp: pcloud_Update_def split: prod.splits option.splits if_splits)
    have ret: "fst r = Some e" if "herr (serve w1 (ncalls w1) opts) = Some e" for e
    proof -
      from that err have "err = Some e" by simp
      with assms prep Inr x call show ?thesis
        by (cases c2) (auto simp: pcloud_Update_def)
    qed
    from w' sent evs1 have l: "wlog w' = wlog w @ (evs1 @ [Request opts [] sent])" by simp
    have f: "filter is_upload (evs1 @ [Request opts [] sent]) = [Request opts [] sent]"
      using evs1(2) path by (simp add: not_upload_filter is_upload_def)
    have "Path opts = ''/uploadfile''
            \<and> (\<exists>sent. filter is_upload (evs1 @ [Request opts [] sent]) = [Request opts [] sent]
                    \<and> wlog w' = wlog w1 @ [Request opts [] sent])
            \<and> ncalls w' = Suc (ncalls w1)
            \<and> (\<forall>e. herr (serve w1 (ncalls w1) opts) = Some e \<longrightarrow> fst r = Some e)"
      using path f sent w' calls ret by blast
    then show ?thesis
      using l prep Inr x f sent w' calls ret
      by (intro exI [of _ "evs1 @ [Request opts [] sent]"]) (simp; blast)
  qed
qed

lemmas eval_pcloud_upload = pcloud_Update_def pcloud_Update_prepare_def pcloud_upload_attempt_def
  pacer_CallNoRetry_def FindRootAndPath_def unavailable_provider_def demo_object_def
  is_upload_def

lemma demo_pcloud_upload:
  "(\<lambda>r. (fst (fst r), fst (snd r), map is_upload (wlog (snd (snd r))), ncalls (snd (snd r))))
     (pcloud_Update demo_object ''hello'' 5 0 (cached_world unavailable_provider))
   = (Some (ApiError 503 ''''), ''llo'', [True], 1)"
  by (simp add: eval_dirs eval_pcloud_upload)

lemma demo_pcloud_upload_retryable:
  "pcloud_shouldRetry (\<lambda>e. False) (hresp (reply 503 2)) (herr (reply 503 2))
     = (True, Some (ApiError 503 ''''))"
  by (simp add: eval_dirs)

theorem pcloud_upload_attempted_once_witness:
  "fst (pcloud_shouldRetry (fserrors_ShouldRetry (cached_world unavailable_provider))
          (hresp (unavailable_provider 0 Opts0)) (herr (unavailable_provider 0 Opts0)))
   \<and> (\<exists>r input' w'.
        pcloud_Update demo_object ''hello'' 5 0 (cached_world unavailable_provider) = (r, input', w')
      \<and> fst r = Some (ApiError 503 '''') \<and> input' = ''llo''
      \<and> length (filter is_upload (wlog w')) = 1 \<and> ncalls w' = 1
      \<and> (\<exists>opts body unsent w1 sent.
           pcloud_Update_prepare demo_object ''hello'' 5 0 (cached_world unavailable_provider)
             = (Inr (opts, body, unsent), w1)
         \<and> wlog w' = wlog w1 @ [Request opts [] sent]))"
proof -
  let ?w = "cached_world unavailable_provider"
  obtain r input' w' where h: "pcloud_Update demo_object ''hello'' 5 0 ?w = (r, input', w')"
    by (metis prod.exhaust)
  note concl = pcloud_upload_attempted_once [OF h]
  have d: "fst r = Some (ApiError 503 '''')" "input' = ''llo''"
    "map is_upload (wlog w') = [True]" "ncalls w' = 1"
    using demo_pcloud_upload h by simp_all
  have l: "length (filter is_upload (wlog w')) = 1"
  proof -
    from d(3) obtain ev where "wlog w' = [ev]" "is_upload ev" by (cases "wlog w'") auto
    then show ?thesis by simp
  qed
  obtain p w1 where prep: "pcloud_Update_prepare demo_object ''hello'' 5 0 ?w = (p, w1)"
    by (metis prod.exhaust)
  have "\<exists>opts body unsent. p = Inr (opts, body, unsent)"
    using prep by (simp add: eval_dirs eval_pcloud_upload) blast
  then obtain opts body unsent where p: "p = Inr (opts, body, unsent)" by blast
  from concl prep p obtain sent where "wlog w' = wlog w1 @ [Request opts [] sent]"
    by auto
  with prep p have e: "\<exists>opts body unsent w1 sent.
           pcloud_Update_prepare demo_object ''hello'' 5 0 ?w = (Inr (opts, body, unsent), w1)
         \<and> wlog w' = wlog w1 @ [Request opts [] sent]" by blast
  have s: "fst (pcloud_shouldRetry (fserrors_ShouldRetry ?w)
          (hresp (unavailable_provider 0 Opts0)) (herr (unavailable_provider 0 Opts0)))"
    by (simp add: eval_dirs unavailable_provider_def)
  from s h d(1,2,4) l e show ?thesis by blast
qed

section \<open>Properties of a root that is a file\<close>

lemma after_requests_refl [simp]: "after_requests w w"
  by (simp add: after_requests_def)

lemma after_requests_trans: "after_requests w w1 \<Longrightarrow> after_requests w1 w2 \<Longrightarrow> after_requests w w2"
  by (simp add: after_requests_def)

lemma after_lookups_refl [simp]: "after_lookups a w w"
  by (simp add: after_lookups_def)





lemma after_requests_settle [simp]: "after_requests w (pacer_settle retry err w') = after_requests w w'"
  by (simp add: after_requests_def pacer_settle_def)

































end
